theory Spec2Isabelle
  imports Main
begin

section \<open>JavaScript values and strings\<close>

text \<open>
  Strings are lists of characters; only the ASCII range is interpreted (white space and
  letter case). A JavaScript number is carried as an integer or as \<open>NaN\<close>: every number the
  verified paths compute comes out of \<open>parseInt\<close>, a row count or a literal.
\<close>

datatype number = NaN | Num int

datatype jsval =
    JNull
  | JBool bool
  | JNum number
  | JStr string
  | JArr "jsval list"
  | JObj "(string \<times> jsval) list"

text \<open>An object is kept as its properties in \<open>Object.keys\<close> order.\<close>

type_synonym row = "(string \<times> jsval) list"

datatype exn =
    Error string
  | TypeError string
  | SyntaxError string
  | SqliteError string

text \<open>\<open>a + b\<close> and \<open>a < b\<close> on numbers: \<open>NaN\<close> is contagious and compares false.\<close>

fun js_add :: "number \<Rightarrow> number \<Rightarrow> number" where
  "js_add (Num a) (Num b) = Num (a + b)"
| "js_add _ _ = NaN"

fun js_lt :: "number \<Rightarrow> number \<Rightarrow> bool" where
  "js_lt (Num a) (Num b) = (a < b)"
| "js_lt _ _ = False"

fun isNaN :: "number \<Rightarrow> bool" where
  "isNaN NaN = True"
| "isNaN (Num _) = False"

definition startsWith :: "string \<Rightarrow> string \<Rightarrow> bool" where
  "startsWith s p = (take (length p) s = p)"

definition substring :: "string \<Rightarrow> nat \<Rightarrow> string" where
  "substring s n = drop n s"

text \<open>\<open>xs.join(sep)\<close>\<close>

fun join :: "string \<Rightarrow> string list \<Rightarrow> string" where
  "join sep [] = []"
| "join sep [x] = x"
| "join sep (x # y # ys) = x @ sep @ join sep (y # ys)"

definition is_space :: "char \<Rightarrow> bool" where
  "is_space c = (c \<in> set [CHR 0x09, CHR 0x0A, CHR 0x0B, CHR 0x0C, CHR 0x0D, CHR 0x20])"

definition trimStart :: "string \<Rightarrow> string" where
  "trimStart s = dropWhile is_space s"

definition trim :: "string \<Rightarrow> string" where
  "trim s = rev (dropWhile is_space (rev (dropWhile is_space s)))"

definition lower_letters :: string where
  "lower_letters = ''abcdefghijklmnopqrstuvwxyz''"

definition upper_letters :: string where
  "upper_letters = ''ABCDEFGHIJKLMNOPQRSTUVWXYZ''"

definition digits :: string where
  "digits = ''0123456789''"

definition upper_char :: "char \<Rightarrow> char" where
  "upper_char c = (case map_of (zip lower_letters upper_letters) c of Some u \<Rightarrow> u | None \<Rightarrow> c)"

definition toUpperCase :: "string \<Rightarrow> string" where
  "toUpperCase s = map upper_char s"


subsection \<open>\<open>parseInt\<close> with the radix left out\<close>

text \<open>
  Leading white space is skipped, one sign is read, a \<open>0x\<close> or \<open>0X\<close> prefix selects radix 16,
  and the longest run of digits of that radix is the value; no digit at all gives \<open>NaN\<close>.
\<close>

definition digit_val :: "char \<Rightarrow> nat option" where
  "digit_val c = map_of (zip (digits @ ''abcdef'' @ ''ABCDEF'')
     ([0, 1, 2, 3, 4, 5, 6, 7, 8, 9] @ [10, 11, 12, 13, 14, 15] @ [10, 11, 12, 13, 14, 15])) c"

definition is_digit_of :: "nat \<Rightarrow> char \<Rightarrow> bool" where
  "is_digit_of radix c = (case digit_val c of Some d \<Rightarrow> d < radix | None \<Rightarrow> False)"

definition digits_value :: "nat \<Rightarrow> string \<Rightarrow> nat" where
  "digits_value radix z = foldl (\<lambda>acc c. acc * radix + the (digit_val c)) 0 z"

definition parseInt :: "string \<Rightarrow> number" where
  "parseInt str =
     (let s0 = trimStart str;
          neg = (s0 \<noteq> [] \<and> hd s0 = CHR ''-'');
          s1 = (if s0 \<noteq> [] \<and> (hd s0 = CHR ''+'' \<or> hd s0 = CHR ''-'') then tl s0 else s0);
          hex = (startsWith s1 ''0x'' \<or> startsWith s1 ''0X'');
          radix = (if hex then 16 else 10);
          s2 = (if hex then drop 2 s1 else s1);
          z = takeWhile (is_digit_of radix) s2
      in if z = [] then NaN
         else Num ((if neg then - 1 else 1) * int (digits_value radix z)))"

section \<open>lib/auth.ts\<close>

text \<open>
  \<open>const JWT_SECRET = process.env.JWT_SECRET || '...'\<close>: the argument is the value of the
  environment variable, \<open>None\<close> when it is not set. \<open>||\<close> takes its right operand when
  the left one is undefined or the empty string.
\<close>

definition default_secret :: string where
  "default_secret = ''minibase-secret-key-change-in-production''"

definition JWT_SECRET :: "string option \<Rightarrow> string" where
  "JWT_SECRET env_value =
     (case env_value of
        None \<Rightarrow> default_secret
      | Some s \<Rightarrow> if s = [] then default_secret else s)"

record AdminSession =
  session_id :: int
  session_username :: string
  iat :: int
  exp :: int

text \<open>
  The jsonwebtoken library is outside the repository: \<open>jwt.verify(token, secret)\<close> is a
  parameter of the model. It returns the decoded payload or throws one of the library's
  errors.
\<close>

datatype jwt_error = TokenExpiredError | JsonWebTokenError string | NotBeforeError

type_synonym jwt_verify = "string \<Rightarrow> string \<Rightarrow> jwt_error + AdminSession"

record auth_env =
  verify :: jwt_verify
  secret_env :: "string option"

definition verifyToken :: "auth_env \<Rightarrow> string \<Rightarrow> AdminSession option" where
  "verifyToken env token =
     (case verify env token (JWT_SECRET (secret_env env)) of
        Inr decoded \<Rightarrow> Some decoded
      | Inl err \<Rightarrow> None)"

text \<open>The header is \<open>None\<close> when the request carries no Authorization header.\<close>

definition extractTokenFromHeader :: "string option \<Rightarrow> string option" where
  "extractTokenFromHeader authHeader =
     (case authHeader of
        None \<Rightarrow> None
      | Some h \<Rightarrow> if h = [] \<or> \<not> startsWith h ''Bearer '' then None else Some (substring h 7))"

record auth_result =
  success :: bool
  user :: "AdminSession option"
  error :: "string option"

definition auth_failure :: "string \<Rightarrow> auth_result" where
  "auth_failure msg = \<lparr>success = False, user = None, error = Some msg\<rparr>"

text \<open>\<open>!token\<close> holds for \<open>null\<close> and for the empty string.\<close>

definition authenticateRequest :: "auth_env \<Rightarrow> string option \<Rightarrow> auth_result" where
  "authenticateRequest env authHeader =
     (case extractTokenFromHeader authHeader of
        None \<Rightarrow> auth_failure ''No token provided''
      | Some token \<Rightarrow>
          if token = [] then auth_failure ''No token provided''
          else (case verifyToken env token of
                  None \<Rightarrow> auth_failure ''Invalid or expired token''
                | Some u \<Rightarrow> \<lparr>success = True, user = Some u, error = None\<rparr>))"

section \<open>lib/db.ts\<close>

subsection \<open>The storage engine\<close>

text \<open>
  \<open>better-sqlite3\<close> is outside the repository: the engine is a parameter of the model, one
  entry for each way the source runs a prepared statement. Each entry takes the SQL text
  the source built and the bound values, and returns the result typed as the source's type
  assertion declares it, or the exception thrown. A \<open>SELECT\<close> or \<open>PRAGMA\<close> read returns no
  new store; \<open>run\<close>, \<open>exec\<close> and a \<open>RETURNING\<close> statement do.
\<close>

record column_info =
  cid :: int
  ci_name :: string
  ci_type :: string
  ci_notnull :: int
  ci_dflt_value :: jsval
  ci_pk :: int

record schema_column =
  sc_name :: string
  sc_type :: string
  sc_notnull :: bool
  sc_dflt_value :: jsval
  sc_pk :: bool

record DatabaseSchema =
  schema_name :: string
  columns :: "schema_column list"

record admin_ref =
  ref_id :: int
  username :: string

record RunResult =
  changes :: int
  lastInsertRowid :: int

record 'db driver =
  all_columns :: "string \<Rightarrow> 'db \<Rightarrow> exn + column_info list"
  all_rows :: "string \<Rightarrow> jsval list \<Rightarrow> 'db \<Rightarrow> exn + row list"
  get_count :: "string \<Rightarrow> 'db \<Rightarrow> exn + int"
  get_admin :: "string \<Rightarrow> jsval list \<Rightarrow> 'db \<Rightarrow> exn + admin_ref option"
  get_returning :: "string \<Rightarrow> jsval list \<Rightarrow> 'db \<Rightarrow> exn + (row option \<times> 'db)"
  run :: "string \<Rightarrow> jsval list \<Rightarrow> 'db \<Rightarrow> exn + (RunResult \<times> 'db)"
  exec :: "string \<Rightarrow> 'db \<Rightarrow> exn + 'db"
  all_names :: "string \<Rightarrow> 'db \<Rightarrow> exn + string list"

text \<open>A statement as it is handed to the engine: the SQL text and the bound values.\<close>

record stmt =
  sql :: string
  params :: "jsval list"

subsection \<open>Schema introspection\<close>

text \<open>\<open>getTables\<close> has no \<open>try\<close>: what the engine throws, it throws.\<close>

definition getTables_sql :: string where
  "getTables_sql =
     ''SELECT name FROM sqlite_master WHERE type='' @ [CHR 0x27] @ ''table'' @ [CHR 0x27]
       @ '' AND name NOT LIKE '' @ [CHR 0x27] @ ''sqlite_%'' @ [CHR 0x27]"

definition getTables :: "'db driver \<Rightarrow> 'db \<Rightarrow> exn + string list" where
  "getTables drv db = all_names drv getTables_sql db"

definition getTableSchema_sql :: "string \<Rightarrow> string" where
  "getTableSchema_sql tableName = ''PRAGMA table_info('' @ tableName @ '')''"

definition getTableSchema :: "'db driver \<Rightarrow> 'db \<Rightarrow> string \<Rightarrow> DatabaseSchema option" where
  "getTableSchema drv db tableName =
     (case all_columns drv (getTableSchema_sql tableName) db of
        Inl err \<Rightarrow> None
      | Inr cols \<Rightarrow>
          if length cols = 0 then None
          else Some \<lparr>schema_name = tableName,
                     columns = map (\<lambda>col. \<lparr>sc_name = ci_name col, sc_type = ci_type col,
                                             sc_notnull = (ci_notnull col \<noteq> 0),
                                             sc_dflt_value = ci_dflt_value col,
                                             sc_pk = (ci_pk col \<noteq> 0)\<rparr>) cols\<rparr>)"

subsection \<open>Generic CRUD operations\<close>

text \<open>\<open>limit = 100, offset = 0\<close> are default parameters: they apply to an omitted argument.\<close>

definition getAllFromTable_stmt :: "string \<Rightarrow> number option \<Rightarrow> number option \<Rightarrow> stmt" where
  "getAllFromTable_stmt tableName limit offset =
     \<lparr>sql = ''SELECT * FROM '' @ tableName @ '' LIMIT ? OFFSET ?'',
      params = [JNum (case limit of None \<Rightarrow> Num 100 | Some l \<Rightarrow> l),
                JNum (case offset of None \<Rightarrow> Num 0 | Some off \<Rightarrow> off)]\<rparr>"

definition getAllFromTable ::
  "'db driver \<Rightarrow> 'db \<Rightarrow> string \<Rightarrow> number option \<Rightarrow> number option \<Rightarrow> row list" where
  "getAllFromTable drv db tableName limit offset =
     (let s = getAllFromTable_stmt tableName limit offset
      in case all_rows drv (sql s) (params s) db of
           Inl err \<Rightarrow> []
         | Inr rows \<Rightarrow> rows)"

definition getTableRowCount_sql :: "string \<Rightarrow> string" where
  "getTableRowCount_sql tableName = ''SELECT COUNT(*) as count FROM '' @ tableName"

definition getTableRowCount :: "'db driver \<Rightarrow> 'db \<Rightarrow> string \<Rightarrow> int" where
  "getTableRowCount drv db tableName =
     (case get_count drv (getTableRowCount_sql tableName) db of
        Inl err \<Rightarrow> 0
      | Inr count \<Rightarrow> count)"

definition insertIntoTable_stmt :: "string \<Rightarrow> row \<Rightarrow> stmt" where
  "insertIntoTable_stmt tableName data =
     (let cols = map fst data;
          placeholders = join '', '' (map (\<lambda>c. ''?'') cols);
          vals = map snd data
      in \<lparr>sql = ''INSERT INTO '' @ tableName @ '' ('' @ join '', '' cols @ '') VALUES (''
                 @ placeholders @ '') RETURNING *'',
          params = vals\<rparr>)"

text \<open>The \<open>catch\<close> logs and throws the same error again.\<close>

definition insertIntoTable ::
  "'db driver \<Rightarrow> 'db \<Rightarrow> string \<Rightarrow> row \<Rightarrow> exn + (row option \<times> 'db)" where
  "insertIntoTable drv db tableName data =
     (let s = insertIntoTable_stmt tableName data
      in get_returning drv (sql s) (params s) db)"

definition updateInTable_stmt :: "string \<Rightarrow> number \<Rightarrow> row \<Rightarrow> stmt" where
  "updateInTable_stmt tableName rid data =
     (let cols = map fst data;
          setClause = join '', '' (map (\<lambda>col. col @ '' = ?'') cols);
          vals = map snd data @ [JNum rid]
      in \<lparr>sql = ''UPDATE '' @ tableName @ '' SET '' @ setClause @ '' WHERE id = ? RETURNING *'',
          params = vals\<rparr>)"

definition updateInTable ::
  "'db driver \<Rightarrow> 'db \<Rightarrow> string \<Rightarrow> number \<Rightarrow> row \<Rightarrow> exn + (row option \<times> 'db)" where
  "updateInTable drv db tableName rid data =
     (let s = updateInTable_stmt tableName rid data
      in get_returning drv (sql s) (params s) db)"

definition main_admin_error :: exn where
  "main_admin_error = Error ''Cannot delete the main admin account''"

definition last_admin_error :: exn where
  "last_admin_error = Error ''Cannot delete the last remaining admin user''"

definition admin_lookup_stmt :: "number \<Rightarrow> stmt" where
  "admin_lookup_stmt rid =
     \<lparr>sql = ''SELECT id, username FROM admin_users WHERE id = ?'', params = [JNum rid]\<rparr>"

definition admin_count_sql :: string where
  "admin_count_sql = ''SELECT COUNT(*) as count FROM admin_users''"

definition deleteFromTable_stmt :: "string \<Rightarrow> number \<Rightarrow> stmt" where
  "deleteFromTable_stmt tableName rid =
     \<lparr>sql = ''DELETE FROM '' @ tableName @ '' WHERE id = ?'', params = [JNum rid]\<rparr>"

text \<open>The last two lines of the \<open>try\<close> block: the \<open>DELETE\<close> and \<open>result.changes > 0\<close>.\<close>

definition run_delete :: "'db driver \<Rightarrow> 'db \<Rightarrow> string \<Rightarrow> number \<Rightarrow> exn + (bool \<times> 'db)" where
  "run_delete drv db tableName rid =
     (let s = deleteFromTable_stmt tableName rid
      in case run drv (sql s) (params s) db of
           Inl err \<Rightarrow> Inl err
         | Inr (result, db') \<Rightarrow> Inr (changes result > 0, db'))"

text \<open>The \<open>try\<close> block of \<open>deleteFromTable\<close>: \<open>Inl\<close> is what it throws.\<close>

definition deleteFromTable_try ::
  "'db driver \<Rightarrow> 'db \<Rightarrow> string \<Rightarrow> number \<Rightarrow> exn + (bool \<times> 'db)" where
  "deleteFromTable_try drv db tableName rid =
     (if tableName = ''admin_users'' then
        (let s = admin_lookup_stmt rid
         in case get_admin drv (sql s) (params s) db of
              Inl err \<Rightarrow> Inl err
            | Inr None \<Rightarrow> run_delete drv db tableName rid
            | Inr (Some userToDelete) \<Rightarrow>
                if username userToDelete = ''admin'' then Inl main_admin_error
                else (case get_count drv admin_count_sql db of
                        Inl err \<Rightarrow> Inl err
                      | Inr adminCount \<Rightarrow>
                          if adminCount \<le> 1 then Inl last_admin_error
                          else run_delete drv db tableName rid))
      else run_delete drv db tableName rid)"

text \<open>The \<open>catch\<close> logs the error and returns \<open>false\<close>; the store is the one before the call.\<close>

definition deleteFromTable :: "'db driver \<Rightarrow> 'db \<Rightarrow> string \<Rightarrow> number \<Rightarrow> bool \<times> 'db" where
  "deleteFromTable drv db tableName rid =
     (case deleteFromTable_try drv db tableName rid of
        Inl err \<Rightarrow> (False, db)
      | Inr r \<Rightarrow> r)"

subsection \<open>Table management\<close>

record column_def =
  cd_name :: string
  cd_type :: string
  cd_constraints :: "string option"

text \<open>\<open>col.constraints ? ' ' + col.constraints : ''\<close>: an empty string is falsy.\<close>

definition column_definition :: "column_def \<Rightarrow> string" where
  "column_definition col =
     cd_name col @ '' '' @ cd_type col @
       (case cd_constraints col of
          None \<Rightarrow> []
        | Some c \<Rightarrow> if c = [] then [] else '' '' @ c)"

definition createTable_sql :: "string \<Rightarrow> column_def list \<Rightarrow> string" where
  "createTable_sql tableName cols =
     ''CREATE TABLE '' @ tableName @ '' ('' @ join '', '' (map column_definition cols) @ '')''"

definition createTable :: "'db driver \<Rightarrow> 'db \<Rightarrow> string \<Rightarrow> column_def list \<Rightarrow> bool \<times> 'db" where
  "createTable drv db tableName cols =
     (case exec drv (createTable_sql tableName cols) db of
        Inl err \<Rightarrow> (False, db)
      | Inr db' \<Rightarrow> (True, db'))"

definition dropTable_sql :: "string \<Rightarrow> string" where
  "dropTable_sql tableName = ''DROP TABLE IF EXISTS '' @ tableName"

definition dropTable :: "'db driver \<Rightarrow> 'db \<Rightarrow> string \<Rightarrow> bool \<times> 'db" where
  "dropTable drv db tableName =
     (case exec drv (dropTable_sql tableName) db of
        Inl err \<Rightarrow> (False, db)
      | Inr db' \<Rightarrow> (True, db'))"

subsection \<open>Raw SQL\<close>

datatype sql_result = Rows "row list" | Info RunResult

definition is_select :: "string \<Rightarrow> bool" where
  "is_select text = startsWith (toUpperCase (trim text)) ''SELECT''"

definition executeSQL ::
  "'db driver \<Rightarrow> 'db \<Rightarrow> string \<Rightarrow> jsval list \<Rightarrow> exn + (sql_result \<times> 'db)" where
  "executeSQL drv db text ps =
     (if is_select text then
        (case all_rows drv text ps db of
           Inl err \<Rightarrow> Inl err
         | Inr rows \<Rightarrow> Inr (Rows rows, db))
      else
        (case run drv text ps db of
           Inl err \<Rightarrow> Inl err
         | Inr (result, db') \<Rightarrow> Inr (Info result, db')))"

section \<open>The request handlers\<close>

text \<open>
  A request carries its Authorization header, its query string and its body;
  \<open>json_body\<close> is \<open>None\<close> when the body is not JSON and \<open>request.json()\<close> rejects.
  A handler returns the response and the store it leaves.
\<close>

record request =
  authorization :: "string option"
  search :: "(string \<times> string) list"
  json_body :: "jsval option"

record response =
  status :: nat
  body :: jsval

definition json :: "jsval \<Rightarrow> nat \<Rightarrow> response" where
  "json b st = \<lparr>status = st, body = b\<rparr>"

definition error_body :: "string \<Rightarrow> jsval" where
  "error_body msg = JObj [(''error'', JStr msg)]"

text \<open>\<open>obj[key]\<close> on a response body, \<open>None\<close> for a property the body does not have.\<close>

fun property :: "jsval \<Rightarrow> string \<Rightarrow> jsval option" where
  "property (JObj props) key = map_of props key"
| "property _ key = None"

text \<open>\<open>{ error: authResult.error }\<close>: an undefined property is left out of the JSON.\<close>

definition unauthorized :: "auth_result \<Rightarrow> response" where
  "unauthorized authResult =
     json (case error authResult of Some msg \<Rightarrow> error_body msg | None \<Rightarrow> JObj []) 401"

text \<open>\<open>searchParams.get(name) || dflt\<close>\<close>

definition param_or :: "request \<Rightarrow> string \<Rightarrow> string \<Rightarrow> string" where
  "param_or req name dflt =
     (case map_of (search req) name of
        None \<Rightarrow> dflt
      | Some v \<Rightarrow> if v = [] then dflt else v)"

text \<open>
  The own enumerable properties that \<open>const { id, ...rest } = data\<close> reads: destructuring
  \<open>null\<close> throws, an array or a string has its indices, a number or a boolean has none.
\<close>

fun decimal :: "nat \<Rightarrow> string" where
  "decimal n = (if n < 10 then [digits ! n] else decimal (n div 10) @ [digits ! (n mod 10)])"

fun own_properties :: "jsval \<Rightarrow> row option" where
  "own_properties JNull = None"
| "own_properties (JObj props) = Some props"
| "own_properties (JArr xs) = Some (zip (map decimal [0..<length xs]) xs)"
| "own_properties (JStr s) = Some (zip (map decimal [0..<length s]) (map (\<lambda>c. JStr [c]) s))"
| "own_properties (JBool b) = Some []"
| "own_properties (JNum n) = Some []"

definition without_id :: "jsval \<Rightarrow> row option" where
  "without_id data = map_option (filter (\<lambda>(k, v). k \<noteq> ''id'')) (own_properties data)"

subsection \<open>api/rest/[tableName]/route.ts\<close>

definition rest_table_GET ::
  "auth_env \<Rightarrow> 'db driver \<Rightarrow> 'db \<Rightarrow> request \<Rightarrow> string \<Rightarrow> response \<times> 'db" where
  "rest_table_GET env drv db req tableName =
     (let authResult = authenticateRequest env (authorization req)
      in if \<not> success authResult then (unauthorized authResult, db)
         else
           (let limit = parseInt (param_or req ''limit'' ''100'');
                offset = parseInt (param_or req ''offset'' ''0'')
            in case getTableSchema drv db tableName of
                 None \<Rightarrow> (json (error_body ''Table not found'') 404, db)
               | Some schema \<Rightarrow>
                   (let records = getAllFromTable drv db tableName (Some limit) (Some offset);
                        totalCount = getTableRowCount drv db tableName
                    in (json (JObj [(''data'', JArr (map JObj records)),
                                   (''pagination'',
                                    JObj [(''limit'', JNum limit),
                                          (''offset'', JNum offset),
                                          (''total'', JNum (Num totalCount)),
                                          (''hasMore'',
                                           JBool (js_lt (js_add offset limit) (Num totalCount)))])])
                          200, db))))"

definition created_body :: "row option \<Rightarrow> jsval" where
  "created_body newRecord =
     JObj ((''message'', JStr ''Record created successfully'') #
           (case newRecord of None \<Rightarrow> [] | Some r \<Rightarrow> [(''data'', JObj r)]))"

definition rest_table_POST ::
  "auth_env \<Rightarrow> 'db driver \<Rightarrow> 'db \<Rightarrow> request \<Rightarrow> string \<Rightarrow> response \<times> 'db" where
  "rest_table_POST env drv db req tableName =
     (let authResult = authenticateRequest env (authorization req)
      in if \<not> success authResult then (unauthorized authResult, db)
         else
           (case json_body req of
              None \<Rightarrow> (json (error_body ''Failed to create record'') 500, db)
            | Some data \<Rightarrow>
                (case getTableSchema drv db tableName of
                   None \<Rightarrow> (json (error_body ''Table not found'') 404, db)
                 | Some schema \<Rightarrow>
                     (case without_id data of
                        None \<Rightarrow> (json (error_body ''Failed to create record'') 500, db)
                      | Some insertData \<Rightarrow>
                          (case insertIntoTable drv db tableName insertData of
                             Inl err \<Rightarrow> (json (error_body ''Failed to create record'') 500, db)
                           | Inr (newRecord, db') \<Rightarrow>
                               (json (created_body newRecord) 201, db'))))))"

subsection \<open>api/rest/[tableName]/[id]/route.ts\<close>

definition getById_stmt :: "string \<Rightarrow> number \<Rightarrow> stmt" where
  "getById_stmt tableName recordId =
     \<lparr>sql = ''SELECT * FROM '' @ tableName @ '' WHERE id = ?'', params = [JNum recordId]\<rparr>"

text \<open>
  \<open>!records || records.length === 0\<close>, then \<open>records[0]\<close>. A run result has no \<open>length\<close>
  and no element \<open>0\<close>: the response carries no \<open>data\<close>.
\<close>

definition rest_record_GET ::
  "auth_env \<Rightarrow> 'db driver \<Rightarrow> 'db \<Rightarrow> request \<Rightarrow> string \<Rightarrow> string \<Rightarrow> response \<times> 'db" where
  "rest_record_GET env drv db req tableName idParam =
     (let authResult = authenticateRequest env (authorization req)
      in if \<not> success authResult then (unauthorized authResult, db)
         else
           (let recordId = parseInt idParam
            in if isNaN recordId then (json (error_body ''Invalid ID format'') 400, db)
               else
                 (case getTableSchema drv db tableName of
                    None \<Rightarrow> (json (error_body ''Table not found'') 404, db)
                  | Some schema \<Rightarrow>
                      (let s = getById_stmt tableName recordId
                       in case executeSQL drv db (sql s) (params s) of
                            Inl err \<Rightarrow> (json (error_body ''Internal server error'') 500, db)
                          | Inr (Rows [], db') \<Rightarrow>
                              (json (error_body ''Record not found'') 404, db')
                          | Inr (Rows (r # rs), db') \<Rightarrow>
                              (json (JObj [(''data'', JObj r)]) 200, db')
                          | Inr (Info result, db') \<Rightarrow> (json (JObj []) 200, db')))))"

definition rest_record_PUT ::
  "auth_env \<Rightarrow> 'db driver \<Rightarrow> 'db \<Rightarrow> request \<Rightarrow> string \<Rightarrow> string \<Rightarrow> response \<times> 'db" where
  "rest_record_PUT env drv db req tableName idParam =
     (let authResult = authenticateRequest env (authorization req)
      in if \<not> success authResult then (unauthorized authResult, db)
         else
           (let recordId = parseInt idParam
            in case json_body req of
                 None \<Rightarrow> (json (error_body ''Failed to update record'') 500, db)
               | Some data \<Rightarrow>
                   if isNaN recordId then (json (error_body ''Invalid ID format'') 400, db)
                   else
                     (case getTableSchema drv db tableName of
                        None \<Rightarrow> (json (error_body ''Table not found'') 404, db)
                      | Some schema \<Rightarrow>
                          (case without_id data of
                             None \<Rightarrow> (json (error_body ''Failed to update record'') 500, db)
                           | Some updateData \<Rightarrow>
                               (case updateInTable drv db tableName recordId updateData of
                                  Inl err \<Rightarrow>
                                    (json (error_body ''Failed to update record'') 500, db)
                                | Inr (None, db') \<Rightarrow>
                                    (json (error_body ''Record not found'') 404, db')
                                | Inr (Some updatedRecord, db') \<Rightarrow>
                                    (json (JObj [(''message'', JStr ''Record updated successfully''),
                                                 (''data'', JObj updatedRecord)]) 200, db'))))))"

definition rest_record_DELETE ::
  "auth_env \<Rightarrow> 'db driver \<Rightarrow> 'db \<Rightarrow> request \<Rightarrow> string \<Rightarrow> string \<Rightarrow> response \<times> 'db" where
  "rest_record_DELETE env drv db req tableName idParam =
     (let authResult = authenticateRequest env (authorization req)
      in if \<not> success authResult then (unauthorized authResult, db)
         else
           (let recordId = parseInt idParam
            in if isNaN recordId then (json (error_body ''Invalid ID format'') 400, db)
               else
                 (case getTableSchema drv db tableName of
                    None \<Rightarrow> (json (error_body ''Table not found'') 404, db)
                  | Some schema \<Rightarrow>
                      (case deleteFromTable drv db tableName recordId of
                         (False, db') \<Rightarrow> (json (error_body ''Record not found'') 404, db')
                       | (True, db') \<Rightarrow>
                           (json (JObj [(''message'', JStr ''Record deleted successfully'')]) 200,
                            db')))))"

subsection \<open>api/auth/verify/route.ts\<close>

definition session_json :: "AdminSession \<Rightarrow> jsval" where
  "session_json u =
     JObj [(''id'', JNum (Num (session_id u))), (''username'', JStr (session_username u)),
           (''iat'', JNum (Num (iat u))), (''exp'', JNum (Num (exp u)))]"

definition auth_verify_GET :: "auth_env \<Rightarrow> request \<Rightarrow> response" where
  "auth_verify_GET env req =
     (let result = authenticateRequest env (authorization req)
      in if \<not> success result then unauthorized result
         else json (JObj ((''valid'', JBool True) #
                          (case user result of
                             None \<Rightarrow> []
                           | Some u \<Rightarrow> [(''user'', session_json u)]))) 200)"

subsection \<open>api/database/stats/route.ts\<close>

definition table_stat :: "'db driver \<Rightarrow> 'db \<Rightarrow> string \<Rightarrow> jsval" where
  "table_stat drv db tableName =
     JObj [(''name'', JStr tableName),
           (''rowCount'', JNum (Num (getTableRowCount drv db tableName)))]"

definition stats_GET ::
  "auth_env \<Rightarrow> 'db driver \<Rightarrow> 'db \<Rightarrow> request \<Rightarrow> response \<times> 'db" where
  "stats_GET env drv db req =
     (let authResult = authenticateRequest env (authorization req)
      in if \<not> success authResult then (unauthorized authResult, db)
         else
           (case getTables drv db of
              Inl err \<Rightarrow> (json (error_body ''Internal server error'') 500, db)
            | Inr tables \<Rightarrow>
                (json (JObj [(''totalTables'', JNum (Num (int (length tables)))),
                             (''totalRows'',
                              JNum (Num (sum_list (map (getTableRowCount drv db) tables)))),
                             (''tables'', JArr (map (table_stat drv db) tables))]) 200, db)))"

subsection \<open>api/database/tables/route.ts\<close>

text \<open>The pattern \<open>/^[a-zA-Z_][a-zA-Z0-9_]*$/\<close> of the create-table handler.\<close>

definition identifier_start :: "char \<Rightarrow> bool" where
  "identifier_start c = (c \<in> set (lower_letters @ upper_letters @ ''_''))"

definition identifier_char :: "char \<Rightarrow> bool" where
  "identifier_char c = (c \<in> set (lower_letters @ upper_letters @ digits @ ''_''))"

definition identifier_pattern :: "string \<Rightarrow> bool" where
  "identifier_pattern s =
     (case s of
        [] \<Rightarrow> False
      | c # cs \<Rightarrow> identifier_start c \<and> list_all identifier_char cs)"

definition schema_column_json :: "schema_column \<Rightarrow> jsval" where
  "schema_column_json col =
     JObj [(''name'', JStr (sc_name col)), (''type'', JStr (sc_type col)),
           (''notnull'', JBool (sc_notnull col)), (''dflt_value'', sc_dflt_value col),
           (''pk'', JBool (sc_pk col))]"

definition schema_json :: "DatabaseSchema option \<Rightarrow> jsval" where
  "schema_json schema =
     (case schema of
        None \<Rightarrow> JNull
      | Some sch \<Rightarrow> JObj [(''name'', JStr (schema_name sch)),
                          (''columns'', JArr (map schema_column_json (columns sch)))])"

definition table_info :: "'db driver \<Rightarrow> 'db \<Rightarrow> string \<Rightarrow> jsval" where
  "table_info drv db tableName =
     JObj [(''name'', JStr tableName),
           (''schema'', schema_json (getTableSchema drv db tableName)),
           (''rowCount'', JNum (Num (getTableRowCount drv db tableName)))]"

definition tables_GET ::
  "auth_env \<Rightarrow> 'db driver \<Rightarrow> 'db \<Rightarrow> request \<Rightarrow> response \<times> 'db" where
  "tables_GET env drv db req =
     (let authResult = authenticateRequest env (authorization req)
      in if \<not> success authResult then (unauthorized authResult, db)
         else
           (case getTables drv db of
              Inl err \<Rightarrow> (json (error_body ''Internal server error'') 500, db)
            | Inr tables \<Rightarrow>
                (json (JObj [(''tables'', JArr (map (table_info drv db) tables))]) 200, db)))"

text \<open>
  The body is taken as \<open>createTable\<close> types it, a table name and an array of column
  definitions; \<open>None\<close> is a body that is not JSON. \<open>!tableName\<close> holds for the empty name.
\<close>

definition tables_POST ::
  "auth_env \<Rightarrow> 'db driver \<Rightarrow> 'db \<Rightarrow> string option \<Rightarrow> (string \<times> column_def list) option
     \<Rightarrow> response \<times> 'db" where
  "tables_POST env drv db authHeader reqBody =
     (let authResult = authenticateRequest env authHeader
      in if \<not> success authResult then (unauthorized authResult, db)
         else
           (case reqBody of
              None \<Rightarrow> (json (error_body ''Internal server error'') 500, db)
            | Some (tableName, cols) \<Rightarrow>
                if tableName = [] then
                  (json (error_body ''Table name and columns are required'') 400, db)
                else if \<not> identifier_pattern tableName then
                  (json (error_body
                     ''Invalid table name. Use only letters, numbers, and underscores.'') 400, db)
                else
                  (case createTable drv db tableName cols of
                     (True, db') \<Rightarrow>
                       (json (JObj [(''message'',
                                     JStr (''Table '' @ [CHR 0x27] @ tableName @ [CHR 0x27]
                                           @ '' created successfully'')),
                                    (''table'',
                                     JObj [(''name'', JStr tableName),
                                           (''schema'',
                                            schema_json (getTableSchema drv db' tableName)),
                                           (''rowCount'', JNum (Num 0))])]) 200, db')
                   | (False, db') \<Rightarrow>
                       (json (error_body ''Failed to create table'') 500, db'))))"

subsection \<open>api/database/tables/[tableName]/route.ts\<close>

definition table_GET ::
  "auth_env \<Rightarrow> 'db driver \<Rightarrow> 'db \<Rightarrow> request \<Rightarrow> string \<Rightarrow> response \<times> 'db" where
  "table_GET env drv db req tableName =
     (let authResult = authenticateRequest env (authorization req)
      in if \<not> success authResult then (unauthorized authResult, db)
         else
           (case getTableSchema drv db tableName of
              None \<Rightarrow> (json (error_body ''Table not found'') 404, db)
            | Some schema \<Rightarrow>
                (json (JObj [(''table'', table_info drv db tableName)]) 200, db)))"

definition table_DELETE ::
  "auth_env \<Rightarrow> 'db driver \<Rightarrow> 'db \<Rightarrow> string option \<Rightarrow> string \<Rightarrow> response \<times> 'db" where
  "table_DELETE env drv db authHeader tableName =
     (let authResult = authenticateRequest env authHeader
      in if \<not> success authResult then (unauthorized authResult, db)
         else if tableName = ''admin_users'' \<or> tableName = ''app_users'' then
           (json (error_body ''Cannot delete system tables'') 403, db)
         else
           (case dropTable drv db tableName of
              (True, db') \<Rightarrow>
                (json (JObj [(''message'',
                              JStr (''Table '' @ [CHR 0x27] @ tableName @ [CHR 0x27]
                                    @ '' deleted successfully''))]) 200, db')
            | (False, db') \<Rightarrow> (json (error_body ''Failed to delete table'') 500, db')))"

section \<open>Sample collaborators\<close>

text \<open>
  Stand-ins for the two libraries, used to run the handlers on concrete requests. The sample
  verifier accepts the token \<open>signed:\<close> followed by the secret and reports the token
  \<open>expired:\<close> followed by the secret as expired; every other token fails the signature check.
\<close>

definition sample_session :: AdminSession where
  "sample_session = \<lparr>session_id = 1, session_username = ''admin'', iat = 0, exp = 86400\<rparr>"

definition sample_verify :: jwt_verify where
  "sample_verify token secret =
     (if token = ''expired:'' @ secret then Inl TokenExpiredError
      else if token = ''signed:'' @ secret then Inr sample_session
      else Inl (JsonWebTokenError ''invalid signature''))"

definition sample_env :: auth_env where
  "sample_env = \<lparr>verify = sample_verify, secret_env = Some ''s3cret''\<rparr>"

definition admin_header :: "string option" where
  "admin_header = Some ''Bearer signed:s3cret''"

text \<open>
  An engine that keeps the statements it was asked to change the store with: its store is
  that list. Every table has one column, and every read comes back empty.
\<close>

definition spy_driver :: "stmt list driver" where
  "spy_driver =
     \<lparr>all_columns = (\<lambda>text log.
        Inr [\<lparr>cid = 0, ci_name = ''id'', ci_type = ''INTEGER'', ci_notnull = 0,
              ci_dflt_value = JNull, ci_pk = 1\<rparr>]),
      all_rows = (\<lambda>text ps log. Inr []),
      get_count = (\<lambda>text log. Inr 0),
      get_admin = (\<lambda>text ps log. Inr None),
      get_returning = (\<lambda>text ps log. Inr (None, log @ [\<lparr>sql = text, params = ps\<rparr>])),
      run = (\<lambda>text ps log.
        Inr (\<lparr>changes = 0, lastInsertRowid = 0\<rparr>, log @ [\<lparr>sql = text, params = ps\<rparr>])),
      exec = (\<lambda>text log. Inr (log @ [\<lparr>sql = text, params = []\<rparr>])),
      all_names = (\<lambda>text log. Inr [''notes''])\<rparr>"

text \<open>
  An engine over the administrative-account table alone, a list of accounts: it answers the
  three statements \<open>deleteFromTable\<close> issues on \<open>admin_users\<close>, the row count and the column
  listing, and throws on any other text.
\<close>

definition admin_columns :: "column_info list" where
  "admin_columns =
     [\<lparr>cid = 0, ci_name = ''id'', ci_type = ''INTEGER'', ci_notnull = 0,
       ci_dflt_value = JNull, ci_pk = 1\<rparr>,
      \<lparr>cid = 1, ci_name = ''username'', ci_type = ''TEXT'', ci_notnull = 1,
       ci_dflt_value = JNull, ci_pk = 0\<rparr>]"

definition no_such :: "string \<Rightarrow> exn" where
  "no_such text = SqliteError (''cannot run: '' @ text)"

definition admin_driver :: "admin_ref list driver" where
  "admin_driver =
     \<lparr>all_columns = (\<lambda>text accounts.
        if text = getTableSchema_sql ''admin_users'' then Inr admin_columns else Inr []),
      all_rows = (\<lambda>text ps accounts. Inl (no_such text)),
      get_count = (\<lambda>text accounts.
        if text = admin_count_sql then Inr (int (length accounts)) else Inl (no_such text)),
      get_admin = (\<lambda>text ps accounts.
        case ps of
          [JNum (Num i)] \<Rightarrow>
            if text = sql (admin_lookup_stmt (Num i))
            then Inr (find (\<lambda>a. ref_id a = i) accounts)
            else Inl (no_such text)
        | _ \<Rightarrow> Inl (no_such text)),
      get_returning = (\<lambda>text ps accounts. Inl (no_such text)),
      run = (\<lambda>text ps accounts.
        case ps of
          [JNum (Num i)] \<Rightarrow>
            if text = sql (deleteFromTable_stmt ''admin_users'' (Num i))
            then Inr (\<lparr>changes = int (length (filter (\<lambda>a. ref_id a = i) accounts)),
                        lastInsertRowid = 0\<rparr>,
                      filter (\<lambda>a. ref_id a \<noteq> i) accounts)
            else Inl (no_such text)
        | _ \<Rightarrow> Inl (no_such text)),
      exec = (\<lambda>text accounts. Inl (no_such text)),
      all_names = (\<lambda>text accounts. Inr [''admin_users''])\<rparr>"

text \<open>
  The same engine reading the statement text without regard to letter case, as SQLite reads
  keywords and the names of tables and columns.
\<close>

definition nocase_admin_driver :: "admin_ref list driver" where
  "nocase_admin_driver =
     \<lparr>all_columns = (\<lambda>text accounts.
        if toUpperCase text = toUpperCase (getTableSchema_sql ''admin_users'')
        then Inr admin_columns else Inr []),
      all_rows = (\<lambda>text ps accounts. Inl (no_such text)),
      get_count = (\<lambda>text accounts.
        if toUpperCase text = toUpperCase admin_count_sql
        then Inr (int (length accounts)) else Inl (no_such text)),
      get_admin = (\<lambda>text ps accounts.
        case ps of
          [JNum (Num i)] \<Rightarrow>
            if toUpperCase text = toUpperCase (sql (admin_lookup_stmt (Num i)))
            then Inr (find (\<lambda>a. ref_id a = i) accounts)
            else Inl (no_such text)
        | _ \<Rightarrow> Inl (no_such text)),
      get_returning = (\<lambda>text ps accounts. Inl (no_such text)),
      run = (\<lambda>text ps accounts.
        case ps of
          [JNum (Num i)] \<Rightarrow>
            if toUpperCase text = toUpperCase (sql (deleteFromTable_stmt ''admin_users'' (Num i)))
            then Inr (\<lparr>changes = int (length (filter (\<lambda>a. ref_id a = i) accounts)),
                        lastInsertRowid = 0\<rparr>,
                      filter (\<lambda>a. ref_id a \<noteq> i) accounts)
            else Inl (no_such text)
        | _ \<Rightarrow> Inl (no_such text)),
      exec = (\<lambda>text accounts. Inl (no_such text)),
      all_names = (\<lambda>text accounts. Inr [''admin_users''])\<rparr>"

definition two_admins :: "admin_ref list" where
  "two_admins = [\<lparr>ref_id = 1, username = ''admin''\<rparr>, \<lparr>ref_id = 2, username = ''bob''\<rparr>]"

definition only_admin :: "admin_ref list" where
  "only_admin = [\<lparr>ref_id = 1, username = ''admin''\<rparr>]"

definition only_bob :: "admin_ref list" where
  "only_bob = [\<lparr>ref_id = 2, username = ''bob''\<rparr>]"

definition failing_disk :: "admin_ref list driver" where
  "failing_disk =
     admin_driver\<lparr>run := (\<lambda>text ps accounts. Inl (SqliteError ''disk I/O error''))\<rparr>"

definition counting_driver :: "int \<Rightarrow> stmt list driver" where
  "counting_driver n = spy_driver\<lparr>get_count := (\<lambda>text log. Inr n)\<rparr>"

definition admin_request :: "jsval option \<Rightarrow> request" where
  "admin_request b = \<lparr>authorization = admin_header, search = [], json_body = b\<rparr>"

definition tampered_request :: "jsval option \<Rightarrow> request" where
  "tampered_request b =
     \<lparr>authorization = Some ''Bearer signed:other'', search = [], json_body = b\<rparr>"

definition page_request :: "string \<Rightarrow> string \<Rightarrow> request" where
  "page_request l off =
     \<lparr>authorization = admin_header, search = [(''limit'', l), (''offset'', off)],
      json_body = None\<rparr>"

text \<open>\<open>response.pagination[key]\<close> of a list response.\<close>

definition pagination :: "response \<Rightarrow> string \<Rightarrow> jsval option" where
  "pagination resp key =
     (case property (body resp) ''pagination'' of
        None \<Rightarrow> None
      | Some pg \<Rightarrow> property pg key)"

section \<open>Evaluation lemmas\<close>

lemmas eval_chars = is_space_def upper_char_def lower_letters_def upper_letters_def digits_def

lemmas eval_parseInt =
  parseInt_def trimStart_def is_space_def startsWith_def is_digit_of_def digit_val_def
  digits_def digits_value_def

lemma sample_auth_ok: "success (authenticateRequest sample_env admin_header)"
  by (simp add: authenticateRequest_def extractTokenFromHeader_def startsWith_def
      substring_def verifyToken_def sample_env_def sample_verify_def JWT_SECRET_def
      admin_header_def)

lemma parseInt_100: "parseInt ''100'' = Num 100"
  by (simp add: eval_parseInt)

lemma parseInt_0: "parseInt ''0'' = Num 0"
  by (simp add: eval_parseInt)

lemma parseInt_1: "parseInt ''1'' = Num 1"
  by (simp add: eval_parseInt)

lemma parseInt_2: "parseInt ''2'' = Num 2"
  by (simp add: eval_parseInt)

lemma parseInt_7: "parseInt ''7'' = Num 7"
  by (simp add: eval_parseInt)

lemma parseInt_10: "parseInt ''10'' = Num 10"
  by (simp add: eval_parseInt)

lemma parseInt_20: "parseInt ''20'' = Num 20"
  by (simp add: eval_parseInt)

lemma spy_schema: "getTableSchema (counting_driver n) log t \<noteq> None"
  by (simp add: getTableSchema_def counting_driver_def spy_driver_def)

lemma spy_schema_plain: "getTableSchema spy_driver log t \<noteq> None"
  by (simp add: getTableSchema_def spy_driver_def)

lemma admin_schema: "getTableSchema admin_driver accounts ''admin_users'' \<noteq> None"
  by (simp add: getTableSchema_def admin_driver_def admin_columns_def)

section \<open>The signing secret\<close>

text \<open>
  C5, as the specification states it: when the signing secret is absent from the
  configuration, startup fails and no default secret is used. The source does otherwise:
  with the variable unset the module loads with the built-in secret, and a token signed
  with that secret verifies.
\<close>

theorem JWT_SECRET_absent_counterexample:
  "JWT_SECRET None = ''minibase-secret-key-change-in-production''
   \<and> verifyToken \<lparr>verify = sample_verify, secret_env = None\<rparr>
         ''signed:minibase-secret-key-change-in-production'' = Some sample_session"
  by (simp add: JWT_SECRET_def default_secret_def verifyToken_def sample_verify_def)

text \<open>
  C5, amended: the secret is the configured value when that is present and not empty, and
  the built-in default \<open>minibase-secret-key-change-in-production\<close> when it is absent or
  empty; loading the secret never fails and never yields an empty secret.
\<close>

theorem JWT_SECRET_fallback:
  "(env_value = None \<or> env_value = Some [] \<longrightarrow>
      JWT_SECRET env_value = ''minibase-secret-key-change-in-production'')
   \<and> (\<forall>s. env_value = Some s \<and> s \<noteq> [] \<longrightarrow> JWT_SECRET env_value = s)
   \<and> JWT_SECRET env_value \<noteq> []"
  by (auto simp: JWT_SECRET_def default_secret_def split: option.splits)

theorem JWT_SECRET_fallback_witness:
  "JWT_SECRET (Some ''s3cret'') = ''s3cret''
   \<and> JWT_SECRET (Some []) = ''minibase-secret-key-change-in-production''"
  using JWT_SECRET_fallback [of "Some ''s3cret''"] JWT_SECRET_fallback [of "Some []"]
  by simp

section \<open>Request authentication\<close>

text \<open>
  C4, as the specification states it: a missing header, a malformed header, an expired
  token and a tampered token all fail with the same error. In the source a request
  without a header is told \<open>No token provided\<close> and a request with an expired token is told
  \<open>Invalid or expired token\<close>.
\<close>

theorem auth_gate_counterexample:
  "error (authenticateRequest sample_env None) = Some ''No token provided''
   \<and> error (authenticateRequest sample_env (Some ''Bearer expired:s3cret''))
       = Some ''Invalid or expired token''
   \<and> authenticateRequest sample_env None
       \<noteq> authenticateRequest sample_env (Some ''Bearer expired:s3cret'')"
  by (simp add: authenticateRequest_def extractTokenFromHeader_def startsWith_def
      substring_def verifyToken_def sample_env_def sample_verify_def JWT_SECRET_def
      auth_failure_def)

lemma extractTokenFromHeader_Bearer:
  "extractTokenFromHeader (Some (''Bearer '' @ t)) = Some t"
  by (simp add: extractTokenFromHeader_def startsWith_def substring_def)

lemma failure_is_one_of_two:
  "\<not> success (authenticateRequest env hdr) \<Longrightarrow>
     authenticateRequest env hdr = auth_failure ''No token provided''
     \<or> authenticateRequest env hdr = auth_failure ''Invalid or expired token''"
  by (auto simp: authenticateRequest_def auth_failure_def split: option.splits if_splits)

lemma auth_failure_fails: "\<not> success (auth_failure msg)"
  by (simp add: auth_failure_def)

lemma unauthorized_failure: "unauthorized (auth_failure msg) = json (error_body msg) 401"
  by (simp add: unauthorized_def auth_failure_def)

lemma handlers_answer_401:
  assumes "authenticateRequest env (authorization req) = auth_failure msg"
  shows "auth_verify_GET env req = json (error_body msg) 401"
    and "rest_table_GET env drv db req tn = (json (error_body msg) 401, db)"
    and "rest_table_POST env drv db req tn = (json (error_body msg) 401, db)"
    and "rest_record_GET env drv db req tn idp = (json (error_body msg) 401, db)"
    and "rest_record_PUT env drv db req tn idp = (json (error_body msg) 401, db)"
    and "rest_record_DELETE env drv db req tn idp = (json (error_body msg) 401, db)"
    and "stats_GET env drv db req = (json (error_body msg) 401, db)"
    and "tables_GET env drv db req = (json (error_body msg) 401, db)"
    and "tables_POST env drv db (authorization req) cbody = (json (error_body msg) 401, db)"
    and "table_GET env drv db req tn = (json (error_body msg) 401, db)"
    and "table_DELETE env drv db (authorization req) tn = (json (error_body msg) 401, db)"
  using assms
  by (simp_all add: auth_verify_GET_def rest_table_GET_def rest_table_POST_def
      rest_record_GET_def rest_record_PUT_def rest_record_DELETE_def stats_GET_def
      tables_GET_def tables_POST_def table_GET_def table_DELETE_def unauthorized_failure
      auth_failure_fails)

text \<open>
  C4, amended: the failures fall into two groups. A request with no Authorization header,
  with a header that does not start with \<open>Bearer \<close>, or with an empty token fails with
  \<open>No token provided\<close>. A request whose token the verifier rejects fails with
  \<open>Invalid or expired token\<close> whatever the verifier's error was, so expiry and tampering
  cannot be told apart. A failure carries one of these two messages and no other, and each
  of the eleven handlers that authenticate a request answers a failure with status 401 and
  the failure's message, leaving the store as it was.
\<close>

theorem auth_gate_failures:
  "authenticateRequest env None = auth_failure ''No token provided''
   \<and> (\<not> startsWith h ''Bearer '' \<longrightarrow>
        authenticateRequest env (Some h) = auth_failure ''No token provided'')
   \<and> authenticateRequest env (Some ''Bearer '') = auth_failure ''No token provided''
   \<and> (t \<noteq> [] \<and> verify env t (JWT_SECRET (secret_env env)) = Inl e \<longrightarrow>
        authenticateRequest env (Some (''Bearer '' @ t))
          = auth_failure ''Invalid or expired token'')
   \<and> (\<not> success (authenticateRequest env hdr) \<longrightarrow>
        authenticateRequest env hdr = auth_failure ''No token provided''
        \<or> authenticateRequest env hdr = auth_failure ''Invalid or expired token'')
   \<and> (authenticateRequest env (authorization req) = auth_failure msg \<longrightarrow>
        auth_verify_GET env req = json (error_body msg) 401
        \<and> rest_table_GET env drv db req tn = (json (error_body msg) 401, db)
        \<and> rest_table_POST env drv db req tn = (json (error_body msg) 401, db)
        \<and> rest_record_GET env drv db req tn idp = (json (error_body msg) 401, db)
        \<and> rest_record_PUT env drv db req tn idp = (json (error_body msg) 401, db)
        \<and> rest_record_DELETE env drv db req tn idp = (json (error_body msg) 401, db)
        \<and> stats_GET env drv db req = (json (error_body msg) 401, db)
        \<and> tables_GET env drv db req = (json (error_body msg) 401, db)
        \<and> tables_POST env drv db (authorization req) cbody = (json (error_body msg) 401, db)
        \<and> table_GET env drv db req tn = (json (error_body msg) 401, db)
        \<and> table_DELETE env drv db (authorization req) tn = (json (error_body msg) 401, db))"
proof (intro conjI impI)
  show "authenticateRequest env None = auth_failure ''No token provided''"
    by (simp add: authenticateRequest_def extractTokenFromHeader_def)
  show "authenticateRequest env (Some ''Bearer '') = auth_failure ''No token provided''"
    by (simp add: authenticateRequest_def extractTokenFromHeader_def startsWith_def
        substring_def)
next
  assume "\<not> startsWith h ''Bearer ''"
  then show "authenticateRequest env (Some h) = auth_failure ''No token provided''"
    by (simp add: authenticateRequest_def extractTokenFromHeader_def)
next
  assume "t \<noteq> [] \<and> verify env t (JWT_SECRET (secret_env env)) = Inl e"
  then show "authenticateRequest env (Some (''Bearer '' @ t))
      = auth_failure ''Invalid or expired token''"
    using extractTokenFromHeader_Bearer [of t]
    by (simp add: authenticateRequest_def verifyToken_def)
next
  assume "\<not> success (authenticateRequest env hdr)"
  then show "authenticateRequest env hdr = auth_failure ''No token provided''
        \<or> authenticateRequest env hdr = auth_failure ''Invalid or expired token''"
    by (rule failure_is_one_of_two)
next
  assume failed: "authenticateRequest env (authorization req) = auth_failure msg"
  show "auth_verify_GET env req = json (error_body msg) 401"
    using failed by (rule handlers_answer_401)
  show "rest_table_GET env drv db req tn = (json (error_body msg) 401, db)"
    using failed by (rule handlers_answer_401)
  show "rest_table_POST env drv db req tn = (json (error_body msg) 401, db)"
    using failed by (rule handlers_answer_401)
  show "rest_record_GET env drv db req tn idp = (json (error_body msg) 401, db)"
    using failed by (rule handlers_answer_401)
  show "rest_record_PUT env drv db req tn idp = (json (error_body msg) 401, db)"
    using failed by (rule handlers_answer_401)
  show "rest_record_DELETE env drv db req tn idp = (json (error_body msg) 401, db)"
    using failed by (rule handlers_answer_401)
  show "stats_GET env drv db req = (json (error_body msg) 401, db)"
    using failed by (rule handlers_answer_401)
  show "tables_GET env drv db req = (json (error_body msg) 401, db)"
    using failed by (rule handlers_answer_401)
  show "tables_POST env drv db (authorization req) cbody = (json (error_body msg) 401, db)"
    using failed by (rule handlers_answer_401)
  show "table_GET env drv db req tn = (json (error_body msg) 401, db)"
    using failed by (rule handlers_answer_401)
  show "table_DELETE env drv db (authorization req) tn = (json (error_body msg) 401, db)"
    using failed by (rule handlers_answer_401)
qed

theorem auth_gate_failures_witness:
  "authenticateRequest sample_env (Some ''Basic abc'') = auth_failure ''No token provided''
   \<and> authenticateRequest sample_env (Some ''Bearer expired:s3cret'')
       = auth_failure ''Invalid or expired token''
   \<and> authenticateRequest sample_env (Some ''Bearer signed:other'')
       = auth_failure ''Invalid or expired token''
   \<and> auth_verify_GET sample_env (tampered_request None)
       = json (error_body ''Invalid or expired token'') 401
   \<and> rest_record_DELETE sample_env admin_driver two_admins (tampered_request None)
        ''admin_users'' ''2''
       = (json (error_body ''Invalid or expired token'') 401, two_admins)
   \<and> table_DELETE sample_env spy_driver [] (authorization (tampered_request None)) ''notes''
       = (json (error_body ''Invalid or expired token'') 401, [])
   \<and> stats_GET sample_env spy_driver [] (tampered_request None)
       = (json (error_body ''Invalid or expired token'') 401, [])"
proof -
  have tampered: "authenticateRequest sample_env (authorization (tampered_request None))
      = auth_failure ''Invalid or expired token''"
    by (simp add: tampered_request_def authenticateRequest_def extractTokenFromHeader_def
        startsWith_def substring_def verifyToken_def sample_env_def sample_verify_def
        JWT_SECRET_def)
  have rejected: "verify sample_env ''expired:s3cret'' (JWT_SECRET (secret_env sample_env))
      = Inl TokenExpiredError"
    "verify sample_env ''signed:other'' (JWT_SECRET (secret_env sample_env))
      = Inl (JsonWebTokenError ''invalid signature'')"
    by (simp_all add: sample_env_def sample_verify_def JWT_SECRET_def)
  have basic: "\<not> startsWith ''Basic abc'' ''Bearer ''"
    by (simp add: startsWith_def)
  show ?thesis
    using auth_gate_failures [of sample_env "''Basic abc''" "''expired:s3cret''"
        TokenExpiredError None "tampered_request None" "''Invalid or expired token''"
        admin_driver two_admins "''admin_users''" "''2''" None]
      auth_gate_failures [of sample_env "''Basic abc''" "''signed:other''"
        "JsonWebTokenError ''invalid signature''" None "tampered_request None"
        "''Invalid or expired token''" spy_driver "[]" "''notes''" "''2''" None]
      tampered rejected basic
    by simp
qed

section \<open>The protection policy on administrative accounts\<close>

lemma deleteFromTable_catch:
  "deleteFromTable_try drv db t rid = Inl e \<Longrightarrow> deleteFromTable drv db t rid = (False, db)"
  by (simp add: deleteFromTable_def)

lemma admin_try_main:
  assumes "get_admin drv ''SELECT id, username FROM admin_users WHERE id = ?'' [JNum rid] db
      = Inr (Some u)"
    and "username u = ''admin''"
  shows "deleteFromTable_try drv db ''admin_users'' rid
      = Inl (Error ''Cannot delete the main admin account'')"
  using assms
  by (simp add: deleteFromTable_try_def admin_lookup_stmt_def main_admin_error_def)

lemma admin_try_last:
  assumes "get_admin drv ''SELECT id, username FROM admin_users WHERE id = ?'' [JNum rid] db
      = Inr (Some u)"
    and "username u \<noteq> ''admin''"
    and "get_count drv ''SELECT COUNT(*) as count FROM admin_users'' db = Inr n"
    and "n \<le> 1"
  shows "deleteFromTable_try drv db ''admin_users'' rid
      = Inl (Error ''Cannot delete the last remaining admin user'')"
  using assms
  by (simp add: deleteFromTable_try_def admin_lookup_stmt_def admin_count_sql_def
      last_admin_error_def)

text \<open>
  What the guard does when the table is named exactly \<open>admin_users\<close>: when the lookup of
  the target finds a row whose username is \<open>admin\<close>, the operation throws the main-admin error (the specification's
  \<open>ProtectedRecord\<close>), whatever the row count is; when it finds a row with another username
  and the table counts at most one row, so that the deletion would leave none, it throws
  the last-admin error (\<open>LastAdminProtected\<close>). In both cases the function returns
  \<open>false\<close> with the store it was given, and it does so whatever the engine would do with a
  \<open>DELETE\<close>: the statement is never run.
\<close>

theorem admin_delete_policy:
  "(get_admin drv ''SELECT id, username FROM admin_users WHERE id = ?'' [JNum rid] db
        = Inr (Some u)
      \<and> username u = ''admin'' \<longrightarrow>
        deleteFromTable_try drv db ''admin_users'' rid
          = Inl (Error ''Cannot delete the main admin account'')
        \<and> deleteFromTable drv db ''admin_users'' rid = (False, db)
        \<and> (\<forall>r. deleteFromTable (drv\<lparr>run := r\<rparr>) db ''admin_users'' rid = (False, db)))
   \<and> (get_admin drv ''SELECT id, username FROM admin_users WHERE id = ?'' [JNum rid] db
        = Inr (Some u)
      \<and> username u \<noteq> ''admin''
      \<and> get_count drv ''SELECT COUNT(*) as count FROM admin_users'' db = Inr n
      \<and> n \<le> 1 \<longrightarrow>
        deleteFromTable_try drv db ''admin_users'' rid
          = Inl (Error ''Cannot delete the last remaining admin user'')
        \<and> deleteFromTable drv db ''admin_users'' rid = (False, db)
        \<and> (\<forall>r. deleteFromTable (drv\<lparr>run := r\<rparr>) db ''admin_users'' rid = (False, db)))"
proof (intro conjI impI allI)
  assume a: "get_admin drv ''SELECT id, username FROM admin_users WHERE id = ?'' [JNum rid] db
        = Inr (Some u)
      \<and> username u = ''admin''"
  show thrown: "deleteFromTable_try drv db ''admin_users'' rid
      = Inl (Error ''Cannot delete the main admin account'')"
    using a by (simp add: admin_try_main)
  show "deleteFromTable drv db ''admin_users'' rid = (False, db)"
    using thrown by (rule deleteFromTable_catch)
  fix r
  have "deleteFromTable_try (drv\<lparr>run := r\<rparr>) db ''admin_users'' rid
      = Inl (Error ''Cannot delete the main admin account'')"
    using a by (intro admin_try_main [where u = u]) simp_all
  then show "deleteFromTable (drv\<lparr>run := r\<rparr>) db ''admin_users'' rid = (False, db)"
    by (rule deleteFromTable_catch)
next
  assume a: "get_admin drv ''SELECT id, username FROM admin_users WHERE id = ?'' [JNum rid] db
        = Inr (Some u)
      \<and> username u \<noteq> ''admin''
      \<and> get_count drv ''SELECT COUNT(*) as count FROM admin_users'' db = Inr n
      \<and> n \<le> 1"
  show thrown: "deleteFromTable_try drv db ''admin_users'' rid
      = Inl (Error ''Cannot delete the last remaining admin user'')"
    using a by (simp add: admin_try_last)
  show "deleteFromTable drv db ''admin_users'' rid = (False, db)"
    using thrown by (rule deleteFromTable_catch)
  fix r
  have "deleteFromTable_try (drv\<lparr>run := r\<rparr>) db ''admin_users'' rid
      = Inl (Error ''Cannot delete the last remaining admin user'')"
    using a by (intro admin_try_last [where u = u and n = n]) simp_all
  then show "deleteFromTable (drv\<lparr>run := r\<rparr>) db ''admin_users'' rid = (False, db)"
    by (rule deleteFromTable_catch)
qed

theorem admin_delete_policy_witness:
  "deleteFromTable_try admin_driver two_admins ''admin_users'' (Num 1)
     = Inl (Error ''Cannot delete the main admin account'')
   \<and> deleteFromTable admin_driver two_admins ''admin_users'' (Num 1) = (False, two_admins)
   \<and> deleteFromTable_try admin_driver only_bob ''admin_users'' (Num 2)
     = Inl (Error ''Cannot delete the last remaining admin user'')
   \<and> deleteFromTable admin_driver only_bob ''admin_users'' (Num 2) = (False, only_bob)
   \<and> deleteFromTable_try admin_driver only_admin ''admin_users'' (Num 1)
     = Inl (Error ''Cannot delete the main admin account'')
   \<and> deleteFromTable admin_driver only_admin ''admin_users'' (Num 1) = (False, only_admin)"
  using admin_delete_policy [of admin_driver "Num 1" two_admins
      "\<lparr>ref_id = 1, username = ''admin''\<rparr>" 2]
    admin_delete_policy [of admin_driver "Num 2" only_bob
      "\<lparr>ref_id = 2, username = ''bob''\<rparr>" 1]
    admin_delete_policy [of admin_driver "Num 1" only_admin
      "\<lparr>ref_id = 1, username = ''admin''\<rparr>" 1]
  by (simp add: admin_driver_def two_admins_def only_bob_def only_admin_def
      admin_lookup_stmt_def admin_count_sql_def)

text \<open>
  The policy is no blanket refusal: an account other than \<open>admin\<close> is deleted when another
  account remains, and a target that does not exist passes the guard and deletes nothing.
\<close>

lemma unprotected_account_deleted:
  "deleteFromTable admin_driver two_admins ''admin_users'' (Num 2)
     = (True, [\<lparr>ref_id = 1, username = ''admin''\<rparr>])
   \<and> deleteFromTable admin_driver two_admins ''admin_users'' (Num 7) = (False, two_admins)"
  by (simp add: deleteFromTable_def deleteFromTable_try_def run_delete_def admin_driver_def
      two_admins_def admin_lookup_stmt_def admin_count_sql_def deleteFromTable_stmt_def)

text \<open>
  On the account list of the sample engine, with distinct ids, a target that exists and
  whose removal would leave no account is exactly a target in a table that counts at most
  one row.
\<close>

lemma last_row_iff_empty_after:
  assumes "distinct (map ref_id accounts)"
    and "find (\<lambda>a. ref_id a = i) accounts = Some u"
  shows "int (length accounts) \<le> 1 \<longleftrightarrow> filter (\<lambda>a. ref_id a \<noteq> i) accounts = []"
proof
  assume "int (length accounts) \<le> 1"
  then have "length accounts \<le> 1" by simp
  with assms(2) show "filter (\<lambda>a. ref_id a \<noteq> i) accounts = []"
    by (cases accounts) (auto split: if_splits)
next
  assume empty: "filter (\<lambda>a. ref_id a \<noteq> i) accounts = []"
  then have same: "\<forall>a \<in> set accounts. ref_id a = i"
    by (auto simp: filter_empty_conv)
  have "length accounts \<le> 1"
  proof (cases accounts)
    case Nil
    then show ?thesis by simp
  next
    case (Cons a rest)
    have "rest = []"
    proof (cases rest)
      case Nil
      then show ?thesis by simp
    next
      case (Cons b more)
      with \<open>accounts = a # rest\<close> same have "ref_id a = ref_id b" by simp
      with \<open>accounts = a # rest\<close> Cons assms(1) show ?thesis by simp
    qed
    with Cons show ?thesis by simp
  qed
  then show "int (length accounts) \<le> 1" by simp
qed

lemma guard_skipped_unless_exact:
  "t \<noteq> ''admin_users'' \<Longrightarrow> deleteFromTable_try drv db t rid = run_delete drv db t rid"
  by (simp add: deleteFromTable_try_def)

lemma nocase_admin_schema:
  "getTableSchema nocase_admin_driver accounts ''ADMIN_USERS'' \<noteq> None"
  by (simp add: getTableSchema_def getTableSchema_sql_def nocase_admin_driver_def
      admin_columns_def toUpperCase_def eval_chars)

lemma nocase_delete_admin:
  "deleteFromTable nocase_admin_driver two_admins ''ADMIN_USERS'' (Num 1) = (True, only_bob)"
  by (simp add: deleteFromTable_def deleteFromTable_try_def run_delete_def
      deleteFromTable_stmt_def nocase_admin_driver_def two_admins_def only_bob_def
      toUpperCase_def eval_chars)

lemma nocase_delete_last:
  "deleteFromTable nocase_admin_driver only_bob ''ADMIN_USERS'' (Num 2) = (True, [])"
  by (simp add: deleteFromTable_def deleteFromTable_try_def run_delete_def
      deleteFromTable_stmt_def nocase_admin_driver_def only_bob_def
      toUpperCase_def eval_chars)

text \<open>
  C2 asks that every delete from the administrative-account table be refused when the
  target is the account \<open>admin\<close> or the last account. The guard compares the table name
  with \<open>admin_users\<close> letter for letter, and the \<open>DELETE\<close> is built from the name as the caller
  wrote it. Under the name \<open>ADMIN_USERS\<close> the try block is the \<open>DELETE\<close> alone, with no
  lookup and no count; on an engine that reads names without regard to case the account
  \<open>admin\<close> is removed, the last account is removed, and the endpoint answers 200.
\<close>

theorem admin_policy_skipped_by_spelling:
  "deleteFromTable_try drv db ''ADMIN_USERS'' rid = run_delete drv db ''ADMIN_USERS'' rid
   \<and> sql (deleteFromTable_stmt ''ADMIN_USERS'' rid) = ''DELETE FROM ADMIN_USERS WHERE id = ?''
   \<and> deleteFromTable nocase_admin_driver two_admins ''ADMIN_USERS'' (Num 1) = (True, only_bob)
   \<and> deleteFromTable nocase_admin_driver only_bob ''ADMIN_USERS'' (Num 2) = (True, [])
   \<and> rest_record_DELETE sample_env nocase_admin_driver two_admins (admin_request None)
        ''ADMIN_USERS'' ''1''
       = (json (JObj [(''message'', JStr ''Record deleted successfully'')]) 200, only_bob)"
proof (intro conjI)
  show "deleteFromTable_try drv db ''ADMIN_USERS'' rid = run_delete drv db ''ADMIN_USERS'' rid"
    by (rule guard_skipped_unless_exact) simp
  show "sql (deleteFromTable_stmt ''ADMIN_USERS'' rid) = ''DELETE FROM ADMIN_USERS WHERE id = ?''"
    by (simp add: deleteFromTable_stmt_def)
  show "deleteFromTable nocase_admin_driver two_admins ''ADMIN_USERS'' (Num 1)
      = (True, only_bob)"
    by (rule nocase_delete_admin)
  show "deleteFromTable nocase_admin_driver only_bob ''ADMIN_USERS'' (Num 2) = (True, [])"
    by (rule nocase_delete_last)
  obtain sch where sch: "getTableSchema nocase_admin_driver two_admins ''ADMIN_USERS'' = Some sch"
    using nocase_admin_schema by blast
  show "rest_record_DELETE sample_env nocase_admin_driver two_admins (admin_request None)
        ''ADMIN_USERS'' ''1''
       = (json (JObj [(''message'', JStr ''Record deleted successfully'')]) 200, only_bob)"
    using sample_auth_ok sch nocase_delete_admin parseInt_1
    by (simp add: rest_record_DELETE_def admin_request_def)
qed

section \<open>The delete endpoint\<close>

lemma rest_record_DELETE_false:
  assumes "success (authenticateRequest env (authorization req))"
    and "parseInt idParam = Num i"
    and "getTableSchema drv db t = Some sch"
    and "fst (deleteFromTable drv db t (Num i)) = False"
  shows "fst (rest_record_DELETE env drv db req t idParam)
      = json (error_body ''Record not found'') 404"
  using assms
  by (cases "deleteFromTable drv db t (Num i)") (simp add: rest_record_DELETE_def)

text \<open>
  C10: whatever the \<open>try\<close> block of \<open>deleteFromTable\<close> throws, a protection error or an
  error of the engine, the function returns \<open>false\<close> and the store it was given. At the
  delete endpoint, for an authenticated request with a numeric id on an existing table, a
  thrown error and a delete that changed no row both give the response
  \<open>Record not found\<close> with status 404.
\<close>

theorem delete_failures_indistinguishable:
  "(deleteFromTable_try drv db t rid = Inl e \<longrightarrow> deleteFromTable drv db t rid = (False, db))
   \<and> (success (authenticateRequest env (authorization req))
       \<and> parseInt idParam = Num i
       \<and> getTableSchema drv db t = Some sch
       \<and> (deleteFromTable_try drv db t (Num i) = Inl e
          \<or> deleteFromTable_try drv db t (Num i) = Inr (False, db')) \<longrightarrow>
       fst (rest_record_DELETE env drv db req t idParam)
         = json (error_body ''Record not found'') 404)
   \<and> (success (authenticateRequest env (authorization req))
       \<and> parseInt idParam = Num i
       \<and> getTableSchema drv db t = Some sch
       \<and> \<not> fst (deleteFromTable drv db t (Num i)) \<longrightarrow>
       fst (rest_record_DELETE env drv db req t idParam)
         = json (error_body ''Record not found'') 404)"
proof (intro conjI impI)
  assume "deleteFromTable_try drv db t rid = Inl e"
  then show "deleteFromTable drv db t rid = (False, db)"
    by (simp add: deleteFromTable_def)
next
  assume "success (authenticateRequest env (authorization req))
       \<and> parseInt idParam = Num i
       \<and> getTableSchema drv db t = Some sch
       \<and> \<not> fst (deleteFromTable drv db t (Num i))"
  then show "fst (rest_record_DELETE env drv db req t idParam)
         = json (error_body ''Record not found'') 404"
    by (simp add: rest_record_DELETE_false)
next
  assume a: "success (authenticateRequest env (authorization req))
       \<and> parseInt idParam = Num i
       \<and> getTableSchema drv db t = Some sch
       \<and> (deleteFromTable_try drv db t (Num i) = Inl e
          \<or> deleteFromTable_try drv db t (Num i) = Inr (False, db'))"
  then have "fst (deleteFromTable drv db t (Num i)) = False"
    by (auto simp: deleteFromTable_def)
  with a show "fst (rest_record_DELETE env drv db req t idParam)
         = json (error_body ''Record not found'') 404"
    by (simp add: rest_record_DELETE_false)
qed

theorem delete_failures_indistinguishable_witness:
  "fst (rest_record_DELETE sample_env admin_driver two_admins (admin_request None)
          ''admin_users'' ''1'')
     = json (error_body ''Record not found'') 404
   \<and> fst (rest_record_DELETE sample_env admin_driver two_admins (admin_request None)
          ''admin_users'' ''7'')
     = json (error_body ''Record not found'') 404
   \<and> fst (rest_record_DELETE sample_env failing_disk two_admins (admin_request None)
          ''admin_users'' ''2'')
     = json (error_body ''Record not found'') 404"
proof -
  obtain sch where sch: "getTableSchema admin_driver two_admins ''admin_users'' = Some sch"
    using admin_schema by blast
  have sch': "getTableSchema failing_disk two_admins ''admin_users'' = Some sch"
    using sch by (simp add: getTableSchema_def failing_disk_def)
  have auth: "success (authenticateRequest sample_env (authorization (admin_request None)))"
    by (simp add: admin_request_def sample_auth_ok)
  have protected: "deleteFromTable_try admin_driver two_admins ''admin_users'' (Num 1)
      = Inl main_admin_error"
    by (simp add: deleteFromTable_try_def admin_driver_def two_admins_def
        admin_lookup_stmt_def)
  have missing: "deleteFromTable_try admin_driver two_admins ''admin_users'' (Num 7)
      = Inr (False, two_admins)"
    by (simp add: deleteFromTable_try_def run_delete_def admin_driver_def two_admins_def
        admin_lookup_stmt_def deleteFromTable_stmt_def)
  have broken: "deleteFromTable_try failing_disk two_admins ''admin_users'' (Num 2)
      = Inl (SqliteError ''disk I/O error'')"
    by (simp add: deleteFromTable_try_def run_delete_def failing_disk_def admin_driver_def
        two_admins_def admin_lookup_stmt_def deleteFromTable_stmt_def admin_count_sql_def)
  show ?thesis
    using delete_failures_indistinguishable [of admin_driver two_admins "''admin_users''"
        "Num 1" main_admin_error sample_env "admin_request None" "''1''" 1 sch two_admins]
      delete_failures_indistinguishable [of admin_driver two_admins "''admin_users''"
        "Num 7" main_admin_error sample_env "admin_request None" "''7''" 7 sch two_admins]
      delete_failures_indistinguishable [of failing_disk two_admins "''admin_users''"
        "Num 2" "SqliteError ''disk I/O error''" sample_env "admin_request None" "''2''" 2
        sch two_admins]
      sch sch' auth protected missing broken parseInt_1 parseInt_2 parseInt_7
    by simp
qed

section \<open>Dropping a table\<close>

text \<open>
  A drop-table request that names exactly \<open>admin_users\<close> or \<open>app_users\<close> is answered, for
  every authenticated caller, with status 403 and \<open>Cannot delete system tables\<close>. For every
  caller, authenticated or not, the store is left as it was and the outcome is the same
  whatever the storage engine is: no statement reaches it.
\<close>

theorem reserved_tables_not_dropped:
  "tableName = ''admin_users'' \<or> tableName = ''app_users'' \<Longrightarrow>
     (success (authenticateRequest env h) \<longrightarrow>
        table_DELETE env drv db h tableName
          = (json (error_body ''Cannot delete system tables'') 403, db))
     \<and> snd (table_DELETE env drv db h tableName) = db
     \<and> table_DELETE env drv' db h tableName = table_DELETE env drv db h tableName"
  by (auto simp: table_DELETE_def Let_def)

theorem reserved_tables_not_dropped_witness:
  "table_DELETE sample_env spy_driver [] admin_header ''admin_users''
     = (json (error_body ''Cannot delete system tables'') 403, [])
   \<and> table_DELETE sample_env spy_driver [] admin_header ''app_users''
     = (json (error_body ''Cannot delete system tables'') 403, [])"
  using reserved_tables_not_dropped [of "''admin_users''" sample_env admin_header spy_driver
      "[]" spy_driver]
    reserved_tables_not_dropped [of "''app_users''" sample_env admin_header spy_driver
      "[]" spy_driver]
    sample_auth_ok
  by simp

text \<open>For comparison, the same request on another table does reach the engine.\<close>

lemma other_table_dropped:
  "snd (table_DELETE sample_env spy_driver [] admin_header ''notes'')
     = [\<lparr>sql = ''DROP TABLE IF EXISTS notes'', params = []\<rparr>]"
  using sample_auth_ok
  by (simp add: table_DELETE_def dropTable_def dropTable_sql_def spy_driver_def)

text \<open>
  C6 asks that a request to drop one of the two reserved tables be refused and that no
  \<open>DROP\<close> run. The guard compares the name with \<open>admin_users\<close> and \<open>app_users\<close> letter for
  letter, and the statement is built from the name as the caller wrote it: under the names
  \<open>ADMIN_USERS\<close> and \<open>main.app_users\<close> the handler answers 200 and the engine is handed the
  \<open>DROP\<close> of that table.
\<close>

theorem reserved_table_dropped_by_spelling:
  "status (fst (table_DELETE sample_env spy_driver [] admin_header ''ADMIN_USERS'')) = 200
   \<and> snd (table_DELETE sample_env spy_driver [] admin_header ''ADMIN_USERS'')
       = [\<lparr>sql = ''DROP TABLE IF EXISTS ADMIN_USERS'', params = []\<rparr>]
   \<and> status (fst (table_DELETE sample_env spy_driver [] admin_header ''main.app_users'')) = 200
   \<and> snd (table_DELETE sample_env spy_driver [] admin_header ''main.app_users'')
       = [\<lparr>sql = ''DROP TABLE IF EXISTS main.app_users'', params = []\<rparr>]"
  using sample_auth_ok
  by (simp add: table_DELETE_def dropTable_def dropTable_sql_def spy_driver_def json_def)

section \<open>Pagination\<close>

text \<open>
  C9: for an authenticated list request on an existing table, the response has status 200;
  a \<open>limit\<close> parameter that is left out is reported as 100 and an \<open>offset\<close> that is left out
  as 0; \<open>total\<close> is the row count; and with a limit \<open>l\<close> and an offset \<open>off\<close> the flag
  \<open>hasMore\<close> is \<open>off + l < total\<close>, and it is false when either does not parse to a
  number. In particular, with a total of 25 and a limit of 10,
  \<open>hasMore\<close> is false at offset 20 and true at offset 10.
\<close>

theorem list_pagination:
  assumes "success (authenticateRequest env (authorization req))"
    and "getTableSchema drv db t = Some sch"
  shows "status (fst (rest_table_GET env drv db req t)) = 200
    \<and> (map_of (search req) ''limit'' = None \<longrightarrow>
         pagination (fst (rest_table_GET env drv db req t)) ''limit'' = Some (JNum (Num 100)))
    \<and> (map_of (search req) ''offset'' = None \<longrightarrow>
         pagination (fst (rest_table_GET env drv db req t)) ''offset'' = Some (JNum (Num 0)))
    \<and> pagination (fst (rest_table_GET env drv db req t)) ''total''
         = Some (JNum (Num (getTableRowCount drv db t)))
    \<and> (pagination (fst (rest_table_GET env drv db req t)) ''limit'' = Some (JNum (Num l))
        \<and> pagination (fst (rest_table_GET env drv db req t)) ''offset'' = Some (JNum (Num off))
        \<longrightarrow> pagination (fst (rest_table_GET env drv db req t)) ''hasMore''
              = Some (JBool (off + l < getTableRowCount drv db t)))
    \<and> (pagination (fst (rest_table_GET env drv db req t)) ''limit'' = Some (JNum NaN)
        \<or> pagination (fst (rest_table_GET env drv db req t)) ''offset'' = Some (JNum NaN)
        \<longrightarrow> pagination (fst (rest_table_GET env drv db req t)) ''hasMore''
              = Some (JBool False))
    \<and> (pagination (fst (rest_table_GET env drv db req t)) ''limit'' = Some (JNum (Num 10))
        \<and> pagination (fst (rest_table_GET env drv db req t)) ''offset'' = Some (JNum (Num 20))
        \<and> getTableRowCount drv db t = 25
        \<longrightarrow> pagination (fst (rest_table_GET env drv db req t)) ''hasMore''
              = Some (JBool False))
    \<and> (pagination (fst (rest_table_GET env drv db req t)) ''limit'' = Some (JNum (Num 10))
        \<and> pagination (fst (rest_table_GET env drv db req t)) ''offset'' = Some (JNum (Num 10))
        \<and> getTableRowCount drv db t = 25
        \<longrightarrow> pagination (fst (rest_table_GET env drv db req t)) ''hasMore''
              = Some (JBool True))"
  using assms
  by (simp add: rest_table_GET_def Let_def json_def pagination_def param_or_def
      parseInt_100 parseInt_0)

theorem list_pagination_witness:
  "pagination (fst (rest_table_GET sample_env (counting_driver 25) []
       (page_request ''10'' ''20'') ''notes'')) ''hasMore'' = Some (JBool False)
   \<and> pagination (fst (rest_table_GET sample_env (counting_driver 25) []
       (page_request ''10'' ''10'') ''notes'')) ''hasMore'' = Some (JBool True)
   \<and> pagination (fst (rest_table_GET sample_env (counting_driver 25) []
       (admin_request None) ''notes'')) ''limit'' = Some (JNum (Num 100))
   \<and> pagination (fst (rest_table_GET sample_env (counting_driver 25) []
       (admin_request None) ''notes'')) ''offset'' = Some (JNum (Num 0))
   \<and> pagination (fst (rest_table_GET sample_env (counting_driver 25) []
       (admin_request None) ''notes'')) ''hasMore'' = Some (JBool False)"
proof -
  obtain sch where sch: "getTableSchema (counting_driver 25) [] ''notes'' = Some sch"
    using spy_schema [of 25 "[]" "''notes''"] by blast
  have count: "getTableRowCount (counting_driver 25) [] ''notes'' = 25"
    by (simp add: getTableRowCount_def counting_driver_def)
  have auth: "success (authenticateRequest sample_env (authorization (page_request a b)))"
    "success (authenticateRequest sample_env (authorization (admin_request None)))"
    for a b
    by (simp_all add: page_request_def admin_request_def sample_auth_ok)
  have lim: "pagination (fst (rest_table_GET sample_env (counting_driver 25) []
       (page_request ''10'' b) ''notes'')) ''limit'' = Some (JNum (Num 10))" for b
    using auth sch
    by (simp add: rest_table_GET_def Let_def json_def pagination_def param_or_def
        page_request_def parseInt_10)
  have off20: "pagination (fst (rest_table_GET sample_env (counting_driver 25) []
       (page_request a ''20'') ''notes'')) ''offset'' = Some (JNum (Num 20))" for a
    using auth sch
    by (simp add: rest_table_GET_def Let_def json_def pagination_def param_or_def
        page_request_def parseInt_20)
  have off10: "pagination (fst (rest_table_GET sample_env (counting_driver 25) []
       (page_request a ''10'') ''notes'')) ''offset'' = Some (JNum (Num 10))" for a
    using auth sch
    by (simp add: rest_table_GET_def Let_def json_def pagination_def param_or_def
        page_request_def parseInt_10)
  have none: "map_of (search (admin_request None)) k = None" for k
    by (simp add: admin_request_def)
  show ?thesis
    using list_pagination [OF auth(1) sch, of "''10''" "''20''" 10 20]
      list_pagination [OF auth(1) sch, of "''10''" "''10''" 10 10]
      list_pagination [OF auth(2) sch, of 100 0]
      lim off20 off10 none count
    by simp
qed

section \<open>Identity is not taken from the caller\<close>

lemma without_id_no_id: "without_id data = Some flds \<Longrightarrow> ''id'' \<notin> set (map fst flds)"
  by (auto simp: without_id_def)

lemma POST_uses_stripped:
  assumes "success (authenticateRequest env (authorization req))"
    and "json_body req = Some data"
    and "getTableSchema drv db t = Some sch"
    and "without_id data = Some flds"
  shows "rest_table_POST env drv db req t =
     (case insertIntoTable drv db t flds of
        Inl err \<Rightarrow> (json (error_body ''Failed to create record'') 500, db)
      | Inr (newRecord, db') \<Rightarrow> (json (created_body newRecord) 201, db'))"
  using assms by (simp add: rest_table_POST_def)

lemma PUT_uses_stripped:
  assumes "success (authenticateRequest env (authorization req))"
    and "json_body req = Some data"
    and "parseInt idParam = Num i"
    and "getTableSchema drv db t = Some sch"
    and "without_id data = Some flds"
  shows "rest_record_PUT env drv db req t idParam =
     (case updateInTable drv db t (Num i) flds of
        Inl err \<Rightarrow> (json (error_body ''Failed to update record'') 500, db)
      | Inr (None, db') \<Rightarrow> (json (error_body ''Record not found'') 404, db')
      | Inr (Some updatedRecord, db') \<Rightarrow>
          (json (JObj [(''message'', JStr ''Record updated successfully''),
                       (''data'', JObj updatedRecord)]) 200, db'))"
  using assms by (simp add: rest_record_PUT_def)

lemma POST_ignores_id:
  "rest_table_POST env drv db (req\<lparr>json_body := Some (JObj props)\<rparr>) t
   = rest_table_POST env drv db
       (req\<lparr>json_body := Some (JObj (filter (\<lambda>(k, v). k \<noteq> ''id'') props))\<rparr>) t"
  by (simp add: rest_table_POST_def Let_def without_id_def split: option.split)

lemma PUT_ignores_id:
  "rest_record_PUT env drv db (req\<lparr>json_body := Some (JObj props)\<rparr>) t idParam
   = rest_record_PUT env drv db
       (req\<lparr>json_body := Some (JObj (filter (\<lambda>(k, v). k \<noteq> ''id'') props))\<rparr>) t idParam"
  by (simp add: rest_record_PUT_def Let_def without_id_def split: option.split)

text \<open>
  The create and the update handler take the body's properties without the property named
  exactly \<open>id\<close>, and build the \<open>INSERT\<close> and the \<open>UPDATE\<close> from those fields alone: no field
  named exactly \<open>id\<close> is among them. The \<open>UPDATE\<close> is addressed by its last bound value, the
  id of the request path. A property named exactly \<open>id\<close> in the body has no effect on either
  handler: the response and the store are those of the same request without it.
\<close>

theorem id_field_stripped:
  "(without_id data = Some flds \<longrightarrow> ''id'' \<notin> set (map fst flds))
   \<and> without_id (JObj props) = Some (filter (\<lambda>(k, v). k \<noteq> ''id'') props)
   \<and> (success (authenticateRequest env (authorization req))
       \<and> json_body req = Some data
       \<and> getTableSchema drv db t = Some sch
       \<and> without_id data = Some flds \<longrightarrow>
       rest_table_POST env drv db req t =
         (case insertIntoTable drv db t flds of
            Inl err \<Rightarrow> (json (error_body ''Failed to create record'') 500, db)
          | Inr (newRecord, db') \<Rightarrow> (json (created_body newRecord) 201, db')))
   \<and> (success (authenticateRequest env (authorization req))
       \<and> json_body req = Some data
       \<and> parseInt idParam = Num i
       \<and> getTableSchema drv db t = Some sch
       \<and> without_id data = Some flds \<longrightarrow>
       rest_record_PUT env drv db req t idParam =
         (case updateInTable drv db t (Num i) flds of
            Inl err \<Rightarrow> (json (error_body ''Failed to update record'') 500, db)
          | Inr (None, db') \<Rightarrow> (json (error_body ''Record not found'') 404, db')
          | Inr (Some updatedRecord, db') \<Rightarrow>
              (json (JObj [(''message'', JStr ''Record updated successfully''),
                           (''data'', JObj updatedRecord)]) 200, db'))
       \<and> last (params (updateInTable_stmt t (Num i) flds)) = JNum (Num i)
       \<and> sql (updateInTable_stmt t (Num i) flds)
           = ''UPDATE '' @ t @ '' SET '' @ join '', '' (map (\<lambda>col. col @ '' = ?'') (map fst flds))
               @ '' WHERE id = ? RETURNING *'')
   \<and> rest_table_POST env drv db (req\<lparr>json_body := Some (JObj props)\<rparr>) t
       = rest_table_POST env drv db
           (req\<lparr>json_body := Some (JObj (filter (\<lambda>(k, v). k \<noteq> ''id'') props))\<rparr>) t
   \<and> rest_record_PUT env drv db (req\<lparr>json_body := Some (JObj props)\<rparr>) t idParam
       = rest_record_PUT env drv db
           (req\<lparr>json_body := Some (JObj (filter (\<lambda>(k, v). k \<noteq> ''id'') props))\<rparr>) t idParam"
proof (intro conjI impI)
  show "without_id (JObj props) = Some (filter (\<lambda>(k, v). k \<noteq> ''id'') props)"
    by (simp add: without_id_def)
  show "rest_table_POST env drv db (req\<lparr>json_body := Some (JObj props)\<rparr>) t
       = rest_table_POST env drv db
           (req\<lparr>json_body := Some (JObj (filter (\<lambda>(k, v). k \<noteq> ''id'') props))\<rparr>) t"
    by (rule POST_ignores_id)
  show "rest_record_PUT env drv db (req\<lparr>json_body := Some (JObj props)\<rparr>) t idParam
       = rest_record_PUT env drv db
           (req\<lparr>json_body := Some (JObj (filter (\<lambda>(k, v). k \<noteq> ''id'') props))\<rparr>) t idParam"
    by (rule PUT_ignores_id)
next
  assume "without_id data = Some flds"
  then show "''id'' \<notin> set (map fst flds)" by (rule without_id_no_id)
next
  assume "success (authenticateRequest env (authorization req))
       \<and> json_body req = Some data
       \<and> getTableSchema drv db t = Some sch
       \<and> without_id data = Some flds"
  then show "rest_table_POST env drv db req t =
         (case insertIntoTable drv db t flds of
            Inl err \<Rightarrow> (json (error_body ''Failed to create record'') 500, db)
          | Inr (newRecord, db') \<Rightarrow> (json (created_body newRecord) 201, db'))"
    by (simp add: POST_uses_stripped)
next
  assume a: "success (authenticateRequest env (authorization req))
       \<and> json_body req = Some data
       \<and> parseInt idParam = Num i
       \<and> getTableSchema drv db t = Some sch
       \<and> without_id data = Some flds"
  then show "rest_record_PUT env drv db req t idParam =
         (case updateInTable drv db t (Num i) flds of
            Inl err \<Rightarrow> (json (error_body ''Failed to update record'') 500, db)
          | Inr (None, db') \<Rightarrow> (json (error_body ''Record not found'') 404, db')
          | Inr (Some updatedRecord, db') \<Rightarrow>
              (json (JObj [(''message'', JStr ''Record updated successfully''),
                           (''data'', JObj updatedRecord)]) 200, db'))"
    by (simp add: PUT_uses_stripped)
  show "last (params (updateInTable_stmt t (Num i) flds)) = JNum (Num i)"
    by (simp add: updateInTable_stmt_def Let_def)
  show "sql (updateInTable_stmt t (Num i) flds)
           = ''UPDATE '' @ t @ '' SET '' @ join '', '' (map (\<lambda>col. col @ '' = ?'') (map fst flds))
               @ '' WHERE id = ? RETURNING *''"
    by (simp add: updateInTable_stmt_def Let_def del: map_map)
qed

theorem id_field_stripped_witness:
  "snd (rest_record_PUT sample_env spy_driver []
          (admin_request (Some (JObj [(''id'', JNum (Num 99)), (''title'', JStr ''x'')])))
          ''notes'' ''7'')
     = [\<lparr>sql = ''UPDATE notes SET title = ? WHERE id = ? RETURNING *'',
         params = [JStr ''x'', JNum (Num 7)]\<rparr>]
   \<and> snd (rest_table_POST sample_env spy_driver []
          (admin_request (Some (JObj [(''id'', JNum (Num 99)), (''title'', JStr ''x'')])))
          ''notes'')
     = [\<lparr>sql = ''INSERT INTO notes (title) VALUES (?) RETURNING *'', params = [JStr ''x'']\<rparr>]"
proof -
  obtain sch where sch: "getTableSchema spy_driver [] ''notes'' = Some sch"
    using spy_schema_plain [of "[]" "''notes''"] by blast
  let ?data = "JObj [(''id'', JNum (Num 99)), (''title'', JStr ''x'')]"
  have auth: "success (authenticateRequest sample_env (authorization (admin_request (Some ?data))))"
    by (simp add: admin_request_def sample_auth_ok)
  have body: "json_body (admin_request (Some ?data)) = Some ?data"
    by (simp add: admin_request_def)
  have stripped: "without_id ?data = Some [(''title'', JStr ''x'')]"
    by (simp add: without_id_def)
  show ?thesis
    using id_field_stripped [of ?data "[(''title'', JStr ''x'')]" "[]" sample_env
        "admin_request (Some ?data)" spy_driver "[]" "''notes''" sch "''7''" 7]
      auth body stripped sch parseInt_7
    by (simp add: updateInTable_def updateInTable_stmt_def insertIntoTable_def
        insertIntoTable_stmt_def spy_driver_def)
qed

text \<open>
  C7 asks that a caller-supplied id never reach the \<open>INSERT\<close> or the \<open>SET\<close> clause, so that
  the updated record keeps the id the update was addressed to. Only the property named
  exactly \<open>id\<close> is dropped: a property \<open>ID\<close>, which names the same column to the engine, and
  a property whose name is itself an assignment to \<open>id\<close> both stay in the field set, and
  the statement the engine is handed assigns the id the caller chose.
\<close>

theorem id_survives_stripping:
  "without_id (JObj [(''ID'', JNum (Num 99))]) = Some [(''ID'', JNum (Num 99))]
   \<and> snd (rest_record_PUT sample_env spy_driver []
          (admin_request (Some (JObj [(''ID'', JNum (Num 99))]))) ''notes'' ''7'')
       = [\<lparr>sql = ''UPDATE notes SET ID = ? WHERE id = ? RETURNING *'',
           params = [JNum (Num 99), JNum (Num 7)]\<rparr>]
   \<and> snd (rest_record_PUT sample_env spy_driver []
          (admin_request (Some (JObj [(''id = 99, title'', JStr ''x'')]))) ''notes'' ''7'')
       = [\<lparr>sql = ''UPDATE notes SET id = 99, title = ? WHERE id = ? RETURNING *'',
           params = [JStr ''x'', JNum (Num 7)]\<rparr>]
   \<and> snd (rest_table_POST sample_env spy_driver []
          (admin_request (Some (JObj [(''ID'', JNum (Num 99)), (''title'', JStr ''x'')])))
          ''notes'')
       = [\<lparr>sql = ''INSERT INTO notes (ID, title) VALUES (?, ?) RETURNING *'',
           params = [JNum (Num 99), JStr ''x'']\<rparr>]"
  using sample_auth_ok parseInt_7
  by (simp add: rest_record_PUT_def rest_table_POST_def admin_request_def getTableSchema_def
      without_id_def updateInTable_def updateInTable_stmt_def insertIntoTable_def
      insertIntoTable_stmt_def spy_driver_def)

section \<open>Values are bound, not interpolated\<close>

lemma count_join_placeholders:
  "count_list (join '', '' (map (\<lambda>c. ''?'') cols)) CHR ''?'' = length cols"
  by (induction cols rule: induct_list012) simp_all

lemma count_join: "count_list (join '', '' xs) CHR ''?'' = count_list (concat xs) CHR ''?''"
  by (induction xs rule: induct_list012) simp_all

lemma count_set_clause:
  "count_list (join '', '' (map (\<lambda>col. col @ '' = ?'') cols)) CHR ''?''
   = length cols + count_list (concat cols) CHR ''?''"
  by (induction cols rule: induct_list012) simp_all

lemma insert_placeholders:
  "count_list (sql (insertIntoTable_stmt t d)) CHR ''?''
   = length (params (insertIntoTable_stmt t d)) + count_list (t @ concat (map fst d)) CHR ''?''"
proof -
  have marks: "count_list (join '', '' (map (\<lambda>c. ''?'') (map fst d))) CHR ''?'' = length d"
    using count_join_placeholders [of "map fst d"] by simp
  have names: "count_list (join '', '' (map fst d)) CHR ''?''
      = count_list (concat (map fst d)) CHR ''?''"
    by (rule count_join)
  show ?thesis
    by (simp add: insertIntoTable_stmt_def Let_def marks names del: map_map)
qed

lemma update_placeholders:
  "count_list (sql (updateInTable_stmt t rid d)) CHR ''?''
   = length (params (updateInTable_stmt t rid d)) + count_list (t @ concat (map fst d)) CHR ''?''"
proof -
  have "count_list (join '', '' (map (\<lambda>col. col @ '' = ?'') (map fst d))) CHR ''?''
      = length d + count_list (concat (map fst d)) CHR ''?''"
    using count_set_clause [of "map fst d"] by simp
  then show ?thesis
    by (simp add: updateInTable_stmt_def Let_def del: map_map)
qed

text \<open>
  C3: in the statements of list, get-by-id, insert, update and delete, the SQL text is
  determined by the table name and the column names alone: two calls that differ only in
  their values (limit, offset, id, field values) build the same text. The values are the
  bound parameters, in order, with the id last in an update. The text holds one
  placeholder \<open>?\<close> for each bound value, beside whatever question marks the names
  themselves contain.
\<close>

theorem values_are_bound:
  "sql (getAllFromTable_stmt t lim off) = sql (getAllFromTable_stmt t lim' off')
   \<and> params (getAllFromTable_stmt t (Some l) (Some k)) = [JNum l, JNum k]
   \<and> count_list (sql (getAllFromTable_stmt t lim off)) CHR ''?''
       = length (params (getAllFromTable_stmt t lim off)) + count_list t CHR ''?''
   \<and> sql (getById_stmt t rid) = sql (getById_stmt t rid')
   \<and> params (getById_stmt t rid) = [JNum rid]
   \<and> count_list (sql (getById_stmt t rid)) CHR ''?''
       = length (params (getById_stmt t rid)) + count_list t CHR ''?''
   \<and> (map fst d = map fst d' \<longrightarrow>
        sql (insertIntoTable_stmt t d) = sql (insertIntoTable_stmt t d'))
   \<and> params (insertIntoTable_stmt t d) = map snd d
   \<and> count_list (sql (insertIntoTable_stmt t d)) CHR ''?''
       = length (params (insertIntoTable_stmt t d))
         + count_list (t @ concat (map fst d)) CHR ''?''
   \<and> (map fst d = map fst d' \<longrightarrow>
        sql (updateInTable_stmt t rid d) = sql (updateInTable_stmt t rid' d'))
   \<and> params (updateInTable_stmt t rid d) = map snd d @ [JNum rid]
   \<and> count_list (sql (updateInTable_stmt t rid d)) CHR ''?''
       = length (params (updateInTable_stmt t rid d))
         + count_list (t @ concat (map fst d)) CHR ''?''
   \<and> sql (deleteFromTable_stmt t rid) = sql (deleteFromTable_stmt t rid')
   \<and> params (deleteFromTable_stmt t rid) = [JNum rid]
   \<and> count_list (sql (deleteFromTable_stmt t rid)) CHR ''?''
       = length (params (deleteFromTable_stmt t rid)) + count_list t CHR ''?''"
proof (intro conjI impI)
  show "count_list (sql (insertIntoTable_stmt t d)) CHR ''?''
       = length (params (insertIntoTable_stmt t d))
         + count_list (t @ concat (map fst d)) CHR ''?''"
    by (rule insert_placeholders)
  show "count_list (sql (updateInTable_stmt t rid d)) CHR ''?''
       = length (params (updateInTable_stmt t rid d))
         + count_list (t @ concat (map fst d)) CHR ''?''"
    by (rule update_placeholders)
next
  assume "map fst d = map fst d'"
  then show "sql (insertIntoTable_stmt t d) = sql (insertIntoTable_stmt t d')"
    by (simp add: insertIntoTable_stmt_def Let_def)
next
  assume "map fst d = map fst d'"
  then show "sql (updateInTable_stmt t rid d) = sql (updateInTable_stmt t rid' d')"
    by (simp add: updateInTable_stmt_def Let_def)
qed (simp_all add: getAllFromTable_stmt_def getById_stmt_def insertIntoTable_stmt_def
    updateInTable_stmt_def deleteFromTable_stmt_def Let_def)

theorem values_are_bound_witness:
  "sql (insertIntoTable_stmt ''app_users''
          [(''email'', JStr ''x); DROP TABLE app_users; --''), (''username'', JNull)])
     = ''INSERT INTO app_users (email, username) VALUES (?, ?) RETURNING *''
   \<and> sql (updateInTable_stmt ''app_users'' (Num 7)
          [(''email'', JStr ''x); DROP TABLE app_users; --''), (''username'', JNull)])
     = ''UPDATE app_users SET email = ?, username = ? WHERE id = ? RETURNING *''"
  using values_are_bound [of "''app_users''" None None None None "Num 1" "Num 1" "Num 3" "Num 7"
      "[(''email'', JStr ''a@b.c''), (''username'', JStr ''ann'')]"
      "[(''email'', JStr ''x); DROP TABLE app_users; --''), (''username'', JNull)]"]
  by (simp add: insertIntoTable_stmt_def updateInTable_stmt_def)

section \<open>Raw SQL\<close>















section \<open>Identifiers\<close>

lemma injected_name_rejected_by_pattern:
  "\<not> identifier_pattern ''name; DROP TABLE app_users''"
  by (simp add: identifier_pattern_def identifier_start_def identifier_char_def eval_chars)

lemma notes_matches_pattern: "identifier_pattern ''notes''"
  by (simp add: identifier_pattern_def identifier_start_def identifier_char_def eval_chars)

text \<open>
  C1 asks that every table and column name be checked against the identifier pattern
  before it reaches a SQL string. The create-table handler checks the table name so, and
  nothing else is checked: a column name that the pattern rejects is written into the
  \<open>INSERT\<close> that the create handler has the engine run, and into the \<open>CREATE TABLE\<close> of the
  create-table handler itself.
\<close>

theorem identifiers_reach_sql_unchecked:
  "\<not> identifier_pattern ''name; DROP TABLE app_users''
   \<and> rest_table_POST sample_env spy_driver []
        (admin_request (Some (JObj [(''name; DROP TABLE app_users'', JStr ''x'')])))
        ''app_users''
       = (json (created_body None) 201,
          [\<lparr>sql = ''INSERT INTO app_users (name; DROP TABLE app_users) VALUES (?) RETURNING *'',
            params = [JStr ''x'']\<rparr>])
   \<and> tables_POST sample_env spy_driver [] admin_header
        (Some (''name; DROP TABLE app_users'', []))
       = (json (error_body
            ''Invalid table name. Use only letters, numbers, and underscores.'') 400, [])
   \<and> snd (tables_POST sample_env spy_driver [] admin_header
         (Some (''notes'', [\<lparr>cd_name = ''name; DROP TABLE app_users'', cd_type = ''TEXT'',
                            cd_constraints = None\<rparr>])))
       = [\<lparr>sql = ''CREATE TABLE notes (name; DROP TABLE app_users TEXT)'', params = []\<rparr>]"
proof (intro conjI)
  show "\<not> identifier_pattern ''name; DROP TABLE app_users''"
    by (rule injected_name_rejected_by_pattern)
  show "rest_table_POST sample_env spy_driver []
        (admin_request (Some (JObj [(''name; DROP TABLE app_users'', JStr ''x'')])))
        ''app_users''
       = (json (created_body None) 201,
          [\<lparr>sql = ''INSERT INTO app_users (name; DROP TABLE app_users) VALUES (?) RETURNING *'',
            params = [JStr ''x'']\<rparr>])"
    using sample_auth_ok
    by (simp add: rest_table_POST_def admin_request_def getTableSchema_def spy_driver_def
        without_id_def insertIntoTable_def insertIntoTable_stmt_def)
  show "tables_POST sample_env spy_driver [] admin_header
        (Some (''name; DROP TABLE app_users'', []))
       = (json (error_body
            ''Invalid table name. Use only letters, numbers, and underscores.'') 400, [])"
    using sample_auth_ok injected_name_rejected_by_pattern by (simp add: tables_POST_def)
  show "snd (tables_POST sample_env spy_driver [] admin_header
         (Some (''notes'', [\<lparr>cd_name = ''name; DROP TABLE app_users'', cd_type = ''TEXT'',
                            cd_constraints = None\<rparr>])))
       = [\<lparr>sql = ''CREATE TABLE notes (name; DROP TABLE app_users TEXT)'', params = []\<rparr>]"
    using sample_auth_ok notes_matches_pattern
    by (simp add: tables_POST_def createTable_def createTable_sql_def column_definition_def
        spy_driver_def)
qed

end
